theory Spec2Isabelle
  imports Complex_Main
begin

section \<open>JavaScript strings\<close>

text \<open>
  Strings are lists of 8-bit characters (code units below 256).  The helpers below are
  the \<open>String.prototype\<close> methods that \<open>validation.util.ts\<close>, \<open>env.ts\<close> and
  \<open>clob-client.factory.ts\<close> call.
\<close>

definition isWhiteSpace :: "char \<Rightarrow> bool" where
  \<comment> \<open>the white space and line terminator code units below 256: TAB, LF, VT, FF, CR, SP, NBSP\<close>
  "isWhiteSpace c = (c \<in> set [CHR 0x09, CHR 0x0A, CHR 0x0B, CHR 0x0C, CHR 0x0D, CHR 0x20, CHR 0xA0])"

definition trim :: "string \<Rightarrow> string" where
  "trim s = rev (dropWhile isWhiteSpace (rev (dropWhile isWhiteSpace s)))"

definition startsWith :: "string \<Rightarrow> string \<Rightarrow> bool" where
  \<comment> \<open>\<open>s.startsWith(p)\<close>\<close>
  "startsWith s p = (take (length p) s = p)"

definition slice :: "nat \<Rightarrow> string \<Rightarrow> string" where
  \<comment> \<open>\<open>s.slice(n)\<close>\<close>
  "slice n s = drop n s"

definition substring :: "nat \<Rightarrow> nat \<Rightarrow> string \<Rightarrow> string" where
  \<comment> \<open>\<open>s.substring(a, b)\<close> for \<open>a \<le> b\<close>\<close>
  "substring a b s = take (b - a) (drop a s)"

definition toLowerCase_char :: "char \<Rightarrow> char" where
  "toLowerCase_char c =
     (let n = (of_char c :: nat)
      in if (65 \<le> n \<and> n \<le> 90) \<or> (192 \<le> n \<and> n \<le> 214) \<or> (216 \<le> n \<and> n \<le> 222)
         then char_of (n + 32) else c)"

definition toLowerCase :: "string \<Rightarrow> string" where
  "toLowerCase s = map toLowerCase_char s"

definition digit_char :: "nat \<Rightarrow> char" where
  "digit_char d = char_of (48 + d)"

fun numberToString :: "nat \<Rightarrow> string" where
  \<comment> \<open>a non-negative integer inside a template literal\<close>
  "numberToString n =
     (if n < 10 then [digit_char n] else numberToString (n div 10) @ [digit_char (n mod 10)])"

fun join :: "string \<Rightarrow> string list \<Rightarrow> string" where
  "join sep [] = []"
| "join sep [x] = x"
| "join sep (x # y # ys) = x @ sep @ join sep (y # ys)"

fun split_acc :: "char \<Rightarrow> string \<Rightarrow> string \<Rightarrow> string list" where
  "split_acc sep cur [] = [rev cur]"
| "split_acc sep cur (c # cs) =
     (if c = sep then rev cur # split_acc sep [] cs else split_acc sep (c # cur) cs)"

definition split :: "char \<Rightarrow> string \<Rightarrow> string list" where
  \<comment> \<open>\<open>s.split(sep)\<close> for a one-character separator\<close>
  "split sep s = split_acc sep [] s"

section \<open>Regular expressions of the source\<close>

definition isHexDigit :: "char \<Rightarrow> bool" where
  \<comment> \<open>the class \<open>[a-fA-F0-9]\<close>, also under the flag \<open>i\<close>\<close>
  "isHexDigit c = (c \<in> set ''0123456789abcdefABCDEF'')"

definition test_address_regex :: "string \<Rightarrow> bool" where
  \<comment> \<open>\<open>/^0x[a-fA-F0-9]{40}$/i.test(s)\<close>: under \<open>i\<close> the letter x matches X too\<close>
  "test_address_regex s =
     (case s of
        c0 # c1 # rest \<Rightarrow>
          c0 = CHR ''0'' \<and> (c1 = CHR ''x'' \<or> c1 = CHR ''X'') \<and>
          length rest = 40 \<and> list_all isHexDigit rest
      | _ \<Rightarrow> False)"

definition test_key_regex :: "string \<Rightarrow> bool" where
  \<comment> \<open>\<open>/^[a-fA-F0-9]{64}$/i.test(s)\<close>\<close>
  "test_key_regex s = (length s = 64 \<and> list_all isHexDigit s)"

definition test_hex_regex :: "string \<Rightarrow> bool" where
  \<comment> \<open>\<open>/^[0-9a-fA-F]+$/.test(s)\<close>\<close>
  "test_hex_regex s = (s \<noteq> [] \<and> list_all isHexDigit s)"

section \<open>validation.util.ts\<close>

record ValidationError =
  message :: string
  field :: string

definition newline :: string where
  "newline = [CHR 0x0A]"

definition isValidEthereumAddress :: "string \<Rightarrow> bool" where
  "isValidEthereumAddress address =
     (if address = [] then False else test_address_regex (trim address))"

definition isValidPrivateKey :: "string \<Rightarrow> bool" where
  "isValidPrivateKey key =
     (if key = [] then False
      else let trimmed = trim key;
               cleanKey = (if startsWith trimmed ''0x'' then slice 2 trimmed else trimmed)
           in test_key_regex cleanKey)"

definition normalizePrivateKey :: "string \<Rightarrow> ValidationError + string" where
  "normalizePrivateKey key =
     (if key = [] then
        Inl \<lparr>message = ''Private key must be a non-empty string'', field = ''PRIVATE_KEY''\<rparr>
      else let trimmed = trim key in
        if startsWith trimmed ''suiprivkey'' then
          Inl \<lparr>message =
                 ''Detected Sui private key format. This bot requires Polygon (Ethereum-compatible) private keys.''
                 @ newline @
                 ''Please export your Polygon wallet private key (hex format, 64 characters).'',
               field = ''PRIVATE_KEY''\<rparr>
        else if length trimmed > 64 \<and> \<not> startsWith trimmed ''0x'' \<and> \<not> test_hex_regex trimmed then
          Inl \<lparr>message =
                 ''Detected invalid private key format. This bot requires Polygon (Ethereum-compatible) private keys.''
                 @ newline @
                 ''Please export your Polygon wallet private key (hex format, 64 characters).'',
               field = ''PRIVATE_KEY''\<rparr>
        else if \<not> isValidPrivateKey trimmed then
          Inl \<lparr>message =
                 ''Invalid private key format. Expected hex format (64 characters, optionally prefixed with 0x).''
                 @ newline @
                 ''Got: '' @ substring 0 20 trimmed @ ''... (length: '' @ numberToString (length trimmed) @ '')'',
               field = ''PRIVATE_KEY''\<rparr>
        else
          let cleanKey = (if startsWith trimmed ''0x'' then slice 2 trimmed else trimmed)
          in Inr (''0x'' @ cleanKey))"

definition normalizeAddress :: "string \<Rightarrow> ValidationError + string" where
  "normalizeAddress address =
     (if address = [] then
        Inl \<lparr>message = ''Address must be a non-empty string'', field = ''ADDRESS''\<rparr>
      else let trimmed = trim address in
        if \<not> isValidEthereumAddress trimmed then
          Inl \<lparr>message =
                 ''Invalid Ethereum/Polygon address format. Expected format: 0x followed by 40 hex characters.''
                 @ newline @
                 ''Got: '' @ substring 0 20 trimmed @ ''...'',
               field = ''ADDRESS''\<rparr>
        else Inr (toLowerCase trimmed))"

fun forEach_push :: "nat \<Rightarrow> string list \<Rightarrow> string list \<times> string list \<Rightarrow> string list \<times> string list" where
  \<comment> \<open>the \<open>forEach\<close> callback of \<open>validateAddresses\<close>, threading \<open>(normalized, errors)\<close>\<close>
  "forEach_push index [] acc = acc"
| "forEach_push index (addr # rest) (normalized, errors) =
     (case normalizeAddress addr of
        Inr a \<Rightarrow> forEach_push (Suc index) rest (normalized @ [a], errors)
      | Inl err \<Rightarrow>
          forEach_push (Suc index) rest
            (normalized, errors @ [''Address['' @ numberToString index @ '']: '' @ message err]))"

definition validateAddresses :: "string list \<Rightarrow> ValidationError + string list" where
  "validateAddresses addresses =
     (if addresses = [] then
        Inl \<lparr>message = ''At least one target address is required'', field = ''TARGET_ADDRESSES''\<rparr>
      else case forEach_push 0 addresses ([], []) of
        (normalized, errors) \<Rightarrow>
          if length errors > 0 then
            Inl \<lparr>message = ''Invalid addresses found:'' @ newline @ join newline errors,
                 field = ''TARGET_ADDRESSES''\<rparr>
          else Inr normalized)"

section \<open>JavaScript numbers and the built-ins the sources call\<close>

text \<open>
  A JavaScript number is NaN, an infinity or a finite value; finite values are kept as
  reals.  The literals of \<open>env.ts\<close> are \<open>0.1\<close>, \<open>0\<close>, \<open>1\<close>, \<open>1.0\<close>, \<open>0.5\<close>,
  \<open>1.2\<close>, \<open>3\<close>, \<open>100\<close> and \<open>300\<close>.  No double lies between the real \<open>1/10\<close> and the
  double nearest to it, so a double is below the literal \<open>0.1\<close> exactly when it is below
  \<open>1/10\<close>.
\<close>

datatype jsnum = NaN | Finite real | PosInfinity | NegInfinity

fun js_lt :: "jsnum \<Rightarrow> jsnum \<Rightarrow> bool" where
  \<comment> \<open>the operator \<open><\<close>: false as soon as one side is NaN\<close>
  "js_lt (Finite a) (Finite b) = (a < b)"
| "js_lt NegInfinity (Finite b) = True"
| "js_lt NegInfinity PosInfinity = True"
| "js_lt (Finite a) PosInfinity = True"
| "js_lt _ _ = False"

definition js_gt :: "jsnum \<Rightarrow> jsnum \<Rightarrow> bool" where
  \<comment> \<open>the operator \<open>>\<close>\<close>
  "js_gt a b = js_lt b a"

fun js_le :: "jsnum \<Rightarrow> jsnum \<Rightarrow> bool" where
  \<comment> \<open>the operator \<open><=\<close>, in which the claims about ranges are phrased\<close>
  "js_le NaN _ = False"
| "js_le _ NaN = False"
| "js_le (Finite a) (Finite b) = (a \<le> b)"
| "js_le NegInfinity _ = True"
| "js_le _ PosInfinity = True"
| "js_le _ _ = False"

definition isNaN :: "jsnum \<Rightarrow> bool" where
  "isNaN n = (n = NaN)"

text \<open>
  \<open>Number\<close>, \<open>JSON.parse\<close> and the \<open>URL\<close> constructor belong to the JavaScript runtime,
  not to this repository: the model takes them as parameters.
  \<^item> \<open>Number v\<close> is \<open>Number(v)\<close> on a string;
  \<^item> \<open>JSON_parse_array v\<close> is \<open>Some xs\<close> when \<open>JSON.parse(v)\<close> returns an array, \<open>xs\<close> being
    its elements under \<open>String\<close>, and \<open>None\<close> when it throws or returns something else;
  \<^item> \<open>URL_protocol u\<close> is \<open>None\<close> when \<open>new URL(u)\<close> throws and the \<open>protocol\<close> of the
    parsed URL otherwise.
\<close>

record js_builtins =
  Number :: "string \<Rightarrow> jsnum"
  JSON_parse_array :: "string \<Rightarrow> string list option"
  URL_protocol :: "string \<Rightarrow> string option"

definition isValidRpcUrl :: "js_builtins \<Rightarrow> string \<Rightarrow> bool" where
  \<comment> \<open>\<open>validation.util.ts\<close>, lines 107-118\<close>
  "isValidRpcUrl rt url =
     (if url = [] then False
      else case URL_protocol rt url of
        Some protocol \<Rightarrow> protocol = ''http:'' \<or> protocol = ''https:''
      | None \<Rightarrow> False)"

section \<open>config/env.ts\<close>

record RuntimeEnv =
  targetAddresses :: "string list"
  proxyWallet :: string
  privateKey :: string
  mongoUri :: "string option"
  rpcUrl :: string
  fetchIntervalSeconds :: jsnum
  tradeMultiplier :: jsnum
  retryLimit :: jsnum
  aggregationEnabled :: bool
  aggregationWindowSeconds :: jsnum
  usdcContractAddress :: string
  polymarketApiKey :: "string option"
  polymarketApiSecret :: "string option"
  polymarketApiPassphrase :: "string option"
  minTradeSizeUsd :: "jsnum option"
  frontrunSizeMultiplier :: "jsnum option"
  gasPriceMultiplier :: "jsnum option"

type_synonym process_env = "string \<rightharpoonup> string"

definition parseList :: "js_builtins \<Rightarrow> string option \<Rightarrow> string list" where
  "parseList rt val =
     (case val of
        None \<Rightarrow> []
      | Some v \<Rightarrow>
          if v = [] then []
          else (case JSON_parse_array rt v of
                  Some xs \<Rightarrow> xs
                | None \<Rightarrow> filter (\<lambda>s. s \<noteq> []) (map trim (split (CHR '','') v))))"

definition required :: "string \<Rightarrow> string option \<Rightarrow> ValidationError + string" where
  "required name v =
     (let missing =
            \<lparr>message = ''Missing required environment variable: '' @ name @ newline @
                        ''Please set '' @ name @ '' in your .env file.'',
             field = name\<rparr>
      in case v of
           None \<Rightarrow> Inl missing
         | Some s \<Rightarrow> if s = [] then Inl missing else Inr s)"

definition template :: "string option \<Rightarrow> string" where
  \<comment> \<open>a possibly undefined string inside a template literal\<close>
  "template v = (case v of None \<Rightarrow> ''undefined'' | Some s \<Rightarrow> s)"

definition number_or :: "js_builtins \<Rightarrow> string option \<Rightarrow> jsnum \<Rightarrow> jsnum" where
  \<comment> \<open>\<open>Number(v ?? d)\<close> for a numeric default \<open>d\<close>\<close>
  "number_or rt v d = (case v of None \<Rightarrow> d | Some s \<Rightarrow> Number rt s)"

definition string_or :: "string option \<Rightarrow> string \<Rightarrow> string" where
  \<comment> \<open>\<open>v || d\<close>: the default replaces undefined and the empty string\<close>
  "string_or v d = (case v of None \<Rightarrow> d | Some s \<Rightarrow> if s = [] then d else s)"

definition check_fetchInterval :: "process_env \<Rightarrow> jsnum \<Rightarrow> ValidationError option" where
  \<comment> \<open>lines 78-84\<close>
  "check_fetchInterval env n =
     (if isNaN n \<or> js_lt n (Finite (1/10)) then
        Some \<lparr>message = ''Invalid FETCH_INTERVAL. Must be a positive number (seconds).'' @ newline @
                         ''Got: '' @ template (env ''FETCH_INTERVAL''),
              field = ''FETCH_INTERVAL''\<rparr>
      else None)"

definition check_frontrunSizeMultiplier :: "process_env \<Rightarrow> jsnum \<Rightarrow> ValidationError option" where
  \<comment> \<open>lines 87-93\<close>
  "check_frontrunSizeMultiplier env n =
     (if isNaN n \<or> js_lt n (Finite 0) \<or> js_gt n (Finite 1) then
        Some \<lparr>message = ''Invalid FRONTRUN_SIZE_MULTIPLIER. Must be between 0.0 and 1.0.'' @ newline @
                         ''Got: '' @ template (env ''FRONTRUN_SIZE_MULTIPLIER''),
              field = ''FRONTRUN_SIZE_MULTIPLIER''\<rparr>
      else None)"

definition check_gasPriceMultiplier :: "process_env \<Rightarrow> jsnum \<Rightarrow> ValidationError option" where
  \<comment> \<open>lines 96-102\<close>
  "check_gasPriceMultiplier env n =
     (if isNaN n \<or> js_lt n (Finite 1) then
        Some \<lparr>message = ''Invalid GAS_PRICE_MULTIPLIER. Must be >= 1.0.'' @ newline @
                         ''Got: '' @ template (env ''GAS_PRICE_MULTIPLIER''),
              field = ''GAS_PRICE_MULTIPLIER''\<rparr>
      else None)"

definition loadEnv_try :: "js_builtins \<Rightarrow> process_env \<Rightarrow> ValidationError + RuntimeEnv" where
  \<comment> \<open>the \<open>try\<close> block of \<open>loadEnv\<close>, lines 55-124; \<open>Inl\<close> is the ValidationError thrown\<close>
  "loadEnv_try rt env =
     (case validateAddresses (parseList rt (env ''TARGET_ADDRESSES'')) of
        Inl e \<Rightarrow> Inl e
      | Inr targetAddresses' \<Rightarrow>
     (case required ''PUBLIC_KEY'' (env ''PUBLIC_KEY'') of
        Inl e \<Rightarrow> Inl e
      | Inr publicKey \<Rightarrow>
     (case normalizeAddress publicKey of
        Inl e \<Rightarrow> Inl e
      | Inr proxyWallet' \<Rightarrow>
     (case required ''PRIVATE_KEY'' (env ''PRIVATE_KEY'') of
        Inl e \<Rightarrow> Inl e
      | Inr rawKey \<Rightarrow>
     (case normalizePrivateKey rawKey of
        Inl e \<Rightarrow> Inl e
      | Inr privateKey' \<Rightarrow>
     (case required ''RPC_URL'' (env ''RPC_URL'') of
        Inl e \<Rightarrow> Inl e
      | Inr rawUrl \<Rightarrow>
     (let rpcUrl' = trim rawUrl in
      if \<not> isValidRpcUrl rt rpcUrl' then
        Inl \<lparr>message = ''Invalid RPC_URL format. Expected HTTP or HTTPS URL.'' @ newline @
                        ''Got: '' @ rpcUrl',
             field = ''RPC_URL''\<rparr>
      else
     (let fetchIntervalSeconds' = number_or rt (env ''FETCH_INTERVAL'') (Finite 1) in
      case check_fetchInterval env fetchIntervalSeconds' of
        Some e \<Rightarrow> Inl e
      | None \<Rightarrow>
     (let frontrunSizeMultiplier' = number_or rt (env ''FRONTRUN_SIZE_MULTIPLIER'') (Finite (1/2)) in
      case check_frontrunSizeMultiplier env frontrunSizeMultiplier' of
        Some e \<Rightarrow> Inl e
      | None \<Rightarrow>
     (let gasPriceMultiplier' = number_or rt (env ''GAS_PRICE_MULTIPLIER'') (Finite (6/5)) in
      case check_gasPriceMultiplier env gasPriceMultiplier' of
        Some e \<Rightarrow> Inl e
      | None \<Rightarrow>
        Inr \<lparr>targetAddresses = targetAddresses',
             proxyWallet = proxyWallet',
             privateKey = privateKey',
             mongoUri = env ''MONGO_URI'',
             rpcUrl = rpcUrl',
             fetchIntervalSeconds = fetchIntervalSeconds',
             tradeMultiplier = number_or rt (env ''TRADE_MULTIPLIER'') (Finite 1),
             retryLimit = number_or rt (env ''RETRY_LIMIT'') (Finite 3),
             aggregationEnabled = (case env ''TRADE_AGGREGATION_ENABLED'' of
                                     None \<Rightarrow> False | Some s \<Rightarrow> s = ''true''),
             aggregationWindowSeconds =
               number_or rt (env ''TRADE_AGGREGATION_WINDOW_SECONDS'') (Finite 300),
             usdcContractAddress =
               string_or (env ''USDC_CONTRACT_ADDRESS'') ''0x2791Bca1f2de4661ED88A30C99A7a9449Aa84174'',
             polymarketApiKey = env ''POLYMARKET_API_KEY'',
             polymarketApiSecret = env ''POLYMARKET_API_SECRET'',
             polymarketApiPassphrase = env ''POLYMARKET_API_PASSPHRASE'',
             minTradeSizeUsd = Some (number_or rt (env ''MIN_TRADE_SIZE_USD'') (Finite 100)),
             frontrunSizeMultiplier = Some frontrunSizeMultiplier',
             gasPriceMultiplier = Some gasPriceMultiplier'\<rparr>))))))))))"

datatype loadEnv_outcome =
    Returned RuntimeEnv
  | ProcessExit nat ValidationError

definition loadEnv :: "js_builtins \<Rightarrow> process_env \<Rightarrow> loadEnv_outcome" where
  \<comment> \<open>lines 29-135: on a ValidationError the \<open>catch\<close> prints its field and message to the
      console and calls \<open>process.exit(1)\<close>; \<open>ProcessExit 1 e\<close> is that exit, \<open>e\<close> the error
      printed.  Nothing in the \<open>try\<close> block throws anything else.\<close>
  "loadEnv rt env =
     (case loadEnv_try rt env of
        Inr e \<Rightarrow> Returned e
      | Inl err \<Rightarrow> ProcessExit 1 err)"

text \<open>
  The validations that \<open>loadEnv\<close> performs, as one predicate: a required variable is
  missing, an address, the private key or the RPC URL is invalid, or one of the three
  checked numbers is out of range.
\<close>

definition validation_fails :: "js_builtins \<Rightarrow> process_env \<Rightarrow> bool" where
  "validation_fails rt env =
     (isl (validateAddresses (parseList rt (env ''TARGET_ADDRESSES''))) \<or>
      (case env ''PUBLIC_KEY'' of None \<Rightarrow> True | Some v \<Rightarrow> v = [] \<or> isl (normalizeAddress v)) \<or>
      (case env ''PRIVATE_KEY'' of None \<Rightarrow> True | Some v \<Rightarrow> v = [] \<or> isl (normalizePrivateKey v)) \<or>
      (case env ''RPC_URL'' of None \<Rightarrow> True | Some v \<Rightarrow> v = [] \<or> \<not> isValidRpcUrl rt (trim v)) \<or>
      check_fetchInterval env (number_or rt (env ''FETCH_INTERVAL'') (Finite 1)) \<noteq> None \<or>
      check_frontrunSizeMultiplier env
        (number_or rt (env ''FRONTRUN_SIZE_MULTIPLIER'') (Finite (1/2))) \<noteq> None \<or>
      check_gasPriceMultiplier env
        (number_or rt (env ''GAS_PRICE_MULTIPLIER'') (Finite (6/5))) \<noteq> None)"

text \<open>
  The checks that run before the numeric ones (lines 57-74): the target addresses, the
  wallet address, the private key and the RPC URL.
\<close>

definition earlier_checks_fail :: "js_builtins \<Rightarrow> process_env \<Rightarrow> bool" where
  "earlier_checks_fail rt env =
     (isl (validateAddresses (parseList rt (env ''TARGET_ADDRESSES''))) \<or>
      (case env ''PUBLIC_KEY'' of None \<Rightarrow> True | Some v \<Rightarrow> v = [] \<or> isl (normalizeAddress v)) \<or>
      (case env ''PRIVATE_KEY'' of None \<Rightarrow> True | Some v \<Rightarrow> v = [] \<or> isl (normalizePrivateKey v)) \<or>
      (case env ''RPC_URL'' of None \<Rightarrow> True | Some v \<Rightarrow> v = [] \<or> \<not> isValidRpcUrl rt (trim v)))"

text \<open>The ranges of the configuration surface, as the spec words them.\<close>

definition at_least :: "real \<Rightarrow> jsnum \<Rightarrow> bool" where
  \<comment> \<open>a well-formed (non-NaN) number that is \<open>>= lo\<close>\<close>
  "at_least lo n = (\<not> isNaN n \<and> js_le (Finite lo) n)"

definition between :: "real \<Rightarrow> real \<Rightarrow> jsnum \<Rightarrow> bool" where
  \<comment> \<open>a well-formed (non-NaN) number with \<open>lo <= n <= hi\<close>\<close>
  "between lo hi n = (\<not> isNaN n \<and> js_le (Finite lo) n \<and> js_le n (Finite hi))"

subsection \<open>A runtime for the examples\<close>

text \<open>
  Concrete built-ins on which the examples run.  \<open>Number_decimal\<close> is \<open>Number\<close> on the
  strings made of white space around an optional sign, digits and an optional fraction:
  the empty string is 0, anything outside this shape is NaN here.  \<open>JSON_none\<close> is
  \<open>JSON.parse\<close> on strings that are not JSON (it throws);  \<open>URL_scheme\<close> reads the
  protocol off a URL that starts with \<open>http://\<close> or \<open>https://\<close>.
\<close>

definition isDigit :: "char \<Rightarrow> bool" where
  "isDigit c = (c \<in> set ''0123456789'')"

definition digits_value :: "string \<Rightarrow> nat" where
  "digits_value ds = foldl (\<lambda>acc c. 10 * acc + (of_char c - 48)) 0 ds"

definition unsigned_decimal :: "string \<Rightarrow> real option" where
  "unsigned_decimal s =
     (let ip = takeWhile isDigit s; rest = dropWhile isDigit s
      in if rest = [] then (if ip = [] then None else Some (real (digits_value ip)))
         else if hd rest = CHR ''.'' \<and> list_all isDigit (tl rest) \<and> (ip \<noteq> [] \<or> tl rest \<noteq> [])
           then Some (real (digits_value ip) + real (digits_value (tl rest)) / 10 ^ length (tl rest))
         else None)"

definition Number_decimal :: "string \<Rightarrow> jsnum" where
  "Number_decimal v =
     (let s = trim v
      in if s = [] then Finite 0
         else case (if hd s = CHR ''-'' then unsigned_decimal (tl s)
                    else if hd s = CHR ''+'' then unsigned_decimal (tl s)
                    else unsigned_decimal s) of
                None \<Rightarrow> NaN
              | Some x \<Rightarrow> Finite (if hd s = CHR ''-'' then - x else x))"

definition JSON_none :: "string \<Rightarrow> string list option" where
  "JSON_none v = None"

definition URL_scheme :: "string \<Rightarrow> string option" where
  "URL_scheme u =
     (if startsWith u ''https://'' then Some ''https:''
      else if startsWith u ''http://'' then Some ''http:''
      else None)"

definition example_runtime :: js_builtins where
  "example_runtime =
     \<lparr>Number = Number_decimal, JSON_parse_array = JSON_none, URL_protocol = URL_scheme\<rparr>"

definition example_env :: process_env where
  "example_env =
     [''TARGET_ADDRESSES'' \<mapsto> ''0xAbCdEf0123456789aBcDeF0123456789abcdef01, 0X00000000000000000000000000000000000000ff'',
      ''PUBLIC_KEY'' \<mapsto> '' 0x1111111111111111111111111111111111111111'',
      ''PRIVATE_KEY'' \<mapsto> ''ABCDEF0123456789abcdef0123456789ABCDEF0123456789abcdef0123456789'',
      ''RPC_URL'' \<mapsto> ''https://polygon-rpc.com '']"

definition example_result :: RuntimeEnv where
  \<comment> \<open>what \<open>loadEnv\<close> returns on \<open>example_env\<close>\<close>
  "example_result =
     \<lparr>targetAddresses =
        [''0xabcdef0123456789abcdef0123456789abcdef01'',
         ''0x00000000000000000000000000000000000000ff''],
      proxyWallet = ''0x1111111111111111111111111111111111111111'',
      privateKey = ''0xABCDEF0123456789abcdef0123456789ABCDEF0123456789abcdef0123456789'',
      mongoUri = None,
      rpcUrl = ''https://polygon-rpc.com'',
      fetchIntervalSeconds = Finite 1,
      tradeMultiplier = Finite 1,
      retryLimit = Finite 3,
      aggregationEnabled = False,
      aggregationWindowSeconds = Finite 300,
      usdcContractAddress = ''0x2791Bca1f2de4661ED88A30C99A7a9449Aa84174'',
      polymarketApiKey = None,
      polymarketApiSecret = None,
      polymarketApiPassphrase = None,
      minTradeSizeUsd = Some (Finite 100),
      frontrunSizeMultiplier = Some (Finite (1/2)),
      gasPriceMultiplier = Some (Finite (6/5))\<rparr>"

section \<open>infrastructure/clob-client.factory.ts\<close>

text \<open>
  The factory calls three libraries: the ethers JSON-RPC provider (constructed and then
  asked for its network), the ethers \<open>Wallet\<close> constructor and the \<open>ClobClient\<close>
  constructor.  Each is a parameter that either succeeds or throws; what a library throws
  is never an instance of this repository's \<open>ValidationError\<close>.  The model returns the
  library calls made, in order, beside the result.
\<close>

datatype thrown =
    ErrorInstance string  \<comment> \<open>an \<open>Error\<close>, with its message\<close>
  | OtherValue string     \<comment> \<open>anything else, with its \<open>String(err)\<close>\<close>

fun thrown_text :: "thrown \<Rightarrow> string" where
  \<comment> \<open>\<open>err instanceof Error ? err.message : String(err)\<close>\<close>
  "thrown_text (ErrorInstance m) = m"
| "thrown_text (OtherValue s) = s"

record Wallet =
  address :: string

record ApiKeyCreds =
  key :: string
  secret :: string
  passphrase :: string

datatype Chain = POLYGON | AMOY

record CreateClientInput =
  rpcUrl :: string
  privateKey :: string
  apiKey :: "string option"
  apiSecret :: "string option"
  apiPassphrase :: "string option"

record 'c libraries =
  getNetwork :: "string \<Rightarrow> thrown option"
    \<comment> \<open>\<open>new providers.JsonRpcProvider(url)\<close> followed by \<open>await provider.getNetwork()\<close>\<close>
  newWallet :: "string \<Rightarrow> string \<Rightarrow> thrown + Wallet"
    \<comment> \<open>\<open>new Wallet(privateKey, provider)\<close>, the provider named by its URL\<close>
  newClobClient :: "string \<Rightarrow> Chain \<Rightarrow> Wallet \<Rightarrow> ApiKeyCreds option \<Rightarrow> thrown + 'c"

datatype lib_call = RpcConnect string | WalletCreate string | ClobClientCreate

datatype js_exception =
    ThrowValidationError ValidationError
  | Throw thrown  \<comment> \<open>\<open>Throw (ErrorInstance m)\<close> is a plain \<open>Error\<close> with message \<open>m\<close>\<close>

definition make_creds :: "CreateClientInput \<Rightarrow> ApiKeyCreds option" where
  \<comment> \<open>lines 52-59; undefined and the empty string are falsy\<close>
  "make_creds input =
     (case (apiKey input, apiSecret input, apiPassphrase input) of
        (Some k, Some s, Some p) \<Rightarrow>
          if k \<noteq> [] \<and> s \<noteq> [] \<and> p \<noteq> []
          then Some \<lparr>key = k, secret = s, passphrase = p\<rparr> else None
      | _ \<Rightarrow> None)"

definition createPolymarketClient_try ::
  "'c libraries \<Rightarrow> CreateClientInput \<Rightarrow> lib_call list \<times> (js_exception + 'c \<times> Wallet)" where
  \<comment> \<open>the outer \<open>try\<close> block, lines 17-68\<close>
  "createPolymarketClient_try lib input =
     (case normalizePrivateKey (privateKey input) of
        Inl e \<Rightarrow> ([], Inl (ThrowValidationError e))
      | Inr normalizedPrivateKey \<Rightarrow>
     (case getNetwork lib (rpcUrl input) of
        Some err \<Rightarrow>
          ([RpcConnect (rpcUrl input)],
           Inl (Throw (ErrorInstance
             (''Failed to connect to RPC endpoint: '' @ rpcUrl input @ newline @
              ''Error: '' @ thrown_text err @ newline @
              ''Please verify your RPC_URL is correct and accessible.''))))
      | None \<Rightarrow>
     (case newWallet lib normalizedPrivateKey (rpcUrl input) of
        Inl err \<Rightarrow>
          ([RpcConnect (rpcUrl input), WalletCreate normalizedPrivateKey],
           Inl (Throw (ErrorInstance
             (''Failed to create wallet from private key.'' @ newline @
              ''Error: '' @ thrown_text err @ newline @
              ''Please verify your PRIVATE_KEY is a valid Polygon (Ethereum-compatible) private key.''))))
      | Inr wallet \<Rightarrow>
          if address wallet = [] \<or> \<not> test_address_regex (address wallet) then
            ([RpcConnect (rpcUrl input), WalletCreate normalizedPrivateKey],
             Inl (Throw (ErrorInstance (''Invalid wallet address generated: '' @ address wallet))))
          else
     (case newClobClient lib ''https://clob.polymarket.com'' POLYGON wallet (make_creds input) of
        Inl err \<Rightarrow>
          ([RpcConnect (rpcUrl input), WalletCreate normalizedPrivateKey, ClobClientCreate],
           Inl (Throw err))
      | Inr client \<Rightarrow>
          ([RpcConnect (rpcUrl input), WalletCreate normalizedPrivateKey, ClobClientCreate],
           Inr (client, wallet))))))"

definition createPolymarketClient ::
  "'c libraries \<Rightarrow> CreateClientInput \<Rightarrow> lib_call list \<times> (js_exception + 'c \<times> Wallet)" where
  \<comment> \<open>lines 14-77: the outer \<open>catch\<close> rethrows a ValidationError as it is and wraps
      everything else in a new \<open>Error\<close>\<close>
  "createPolymarketClient lib input =
     (case createPolymarketClient_try lib input of
        (calls, Inr r) \<Rightarrow> (calls, Inr r)
      | (calls, Inl (ThrowValidationError e)) \<Rightarrow> (calls, Inl (ThrowValidationError e))
      | (calls, Inl (Throw err)) \<Rightarrow>
          (calls, Inl (Throw (ErrorInstance
             (''Failed to create Polymarket client: '' @ thrown_text err)))))"

section \<open>The Signal Merger\<close>


datatype side = buy | sell











section \<open>The Decision Engine\<close>

text \<open>
  Modelled from the spec: the Decision Engine (section 4.5), the AggregatedSignal and the
  ExecutionRequest (section 3) are not among the source files.  Sizes, prices and
  multipliers are reals.  The steps are those of section 4.5 in its order; its edge case
  (a request of size 0 is treated as below-threshold) belongs to step 1, so that with
  multiplier 0 every signal is skipped as below-threshold (section 8).
\<close>

record AggregatedSignal =
  aggAccount :: string
  aggMarket :: string
  aggSide :: side
  netSizeUsd :: real
  windowStart :: nat
  windowEnd :: nat
  memberIds :: "string list"

record ExecutionRequest =
  keyAccount :: string
  keyMarket :: string
  keySide :: side  \<comment> \<open>the field \<open>side\<close>\<close>
  requestedSizeUsd :: real
  gasPriceHint :: real
  originSignalIds :: "string list"

record decision_config =
  cfg_minTradeSizeUsd :: real
  cfg_frontrunSizeMultiplier :: real
  cfg_gasPriceMultiplier :: real

record collaborators =
  hasSufficientBalance :: "string \<Rightarrow> side \<Rightarrow> real \<Rightarrow> bool"
  currentGasPrice :: real

datatype decision =
    Emit ExecutionRequest
  | SkippedBelowThreshold
  | SkippedDuplicate
  | SkippedInsufficientBalance

type_synonym inflight = "(string \<times> string \<times> side) set"

definition decide ::
  "decision_config \<Rightarrow> collaborators \<Rightarrow> inflight \<Rightarrow> AggregatedSignal \<Rightarrow> decision \<times> inflight" where
  \<comment> \<open>Modelled from the spec: steps 1-5 of the Decision Engine (section 4.5), which no
      source file holds\<close>
  "decide cfg col fl sig =
     (let k = (aggAccount sig, aggMarket sig, aggSide sig);
          size = netSizeUsd sig * cfg_frontrunSizeMultiplier cfg
      in if netSizeUsd sig < cfg_minTradeSizeUsd cfg \<or> size = 0 then (SkippedBelowThreshold, fl)
         else if k \<in> fl then (SkippedDuplicate, fl)
         else if \<not> hasSufficientBalance col (aggAccount sig) (aggSide sig) size
           then (SkippedInsufficientBalance, fl)
         else (Emit \<lparr>keyAccount = aggAccount sig, keyMarket = aggMarket sig,
                      keySide = aggSide sig, requestedSizeUsd = size,
                      gasPriceHint = currentGasPrice col * cfg_gasPriceMultiplier cfg,
                      originSignalIds = memberIds sig\<rparr>,
               insert k fl))"

section \<open>Example inputs\<close>

definition example_libraries :: "unit libraries" where
  \<comment> \<open>an RPC endpoint that answers at one URL only, a wallet and a client that construct\<close>
  "example_libraries =
     \<lparr>getNetwork = (\<lambda>url. if url = ''https://polygon-rpc.com'' then None
                          else Some (ErrorInstance ''could not detect network'')),
      newWallet = (\<lambda>k url. Inr \<lparr>address = ''0x1111111111111111111111111111111111111111''\<rparr>),
      newClobClient = (\<lambda>host chain w creds. Inr ())\<rparr>"

definition example_input :: "string \<Rightarrow> string \<Rightarrow> CreateClientInput" where
  "example_input url k =
     \<lparr>rpcUrl = url, privateKey = k, apiKey = None, apiSecret = None, apiPassphrase = None\<rparr>"


definition example_aggregated :: AggregatedSignal where
  "example_aggregated =
     \<lparr>aggAccount = ''0x1111111111111111111111111111111111111111'', aggMarket = ''m1'',
      aggSide = buy, netSizeUsd = 500, windowStart = 10, windowEnd = 310,
      memberIds = [''0xfeed'']\<rparr>"

definition example_config :: decision_config where
  "example_config =
     \<lparr>cfg_minTradeSizeUsd = 100, cfg_frontrunSizeMultiplier = 1/2, cfg_gasPriceMultiplier = 6/5\<rparr>"

definition example_collaborators :: collaborators where
  "example_collaborators =
     \<lparr>hasSufficientBalance = (\<lambda>a s size. size \<le> 1000), currentGasPrice = 30\<rparr>"

section \<open>Facts about trimming and the hexadecimal class\<close>

lemma isHexDigit_not_space: "isHexDigit c \<Longrightarrow> \<not> isWhiteSpace c"
  by (auto simp: isHexDigit_def isWhiteSpace_def)

lemma trim_id:
  assumes "s \<noteq> []" "\<not> isWhiteSpace (hd s)" "\<not> isWhiteSpace (last s)"
  shows "trim s = s"
proof -
  from assms have a: "dropWhile isWhiteSpace s = s"
    by (cases s) auto
  from assms have "rev s \<noteq> []" "\<not> isWhiteSpace (hd (rev s))"
    by (auto simp: hd_rev)
  then have "dropWhile isWhiteSpace (rev s) = rev s"
    by (cases "rev s") auto
  with a show ?thesis by (simp add: trim_def)
qed

lemma last_dropWhile_nonempty: "dropWhile P xs \<noteq> [] \<Longrightarrow> last (dropWhile P xs) = last xs"
  by (induction xs) (auto split: if_splits)

lemma trim_ends:
  assumes "trim s \<noteq> []"
  shows "\<not> isWhiteSpace (hd (trim s))" and "\<not> isWhiteSpace (last (trim s))"
proof -
  let ?t = "dropWhile isWhiteSpace s"
  let ?u = "dropWhile isWhiteSpace (rev ?t)"
  from assms have u: "?u \<noteq> []" by (simp add: trim_def)
  then have t: "?t \<noteq> []" by (cases "?t = []") simp_all
  have "hd (trim s) = last ?u" using u by (simp add: trim_def hd_rev)
  also have "\<dots> = last (rev ?t)" using u by (rule last_dropWhile_nonempty)
  also have "\<dots> = hd ?t" using t by (simp add: last_rev)
  finally show "\<not> isWhiteSpace (hd (trim s))" using t hd_dropWhile[of isWhiteSpace s] by simp
  have "last (trim s) = hd ?u" using u by (simp add: trim_def last_rev)
  then show "\<not> isWhiteSpace (last (trim s))" using u hd_dropWhile[of isWhiteSpace "rev ?t"] by simp
qed

lemma trim_Nil: "trim [] = []"
  by (simp add: trim_def)

lemma trim_idem: "trim (trim s) = trim s"
  by (cases "trim s = []") (simp_all add: trim_Nil trim_id trim_ends)

section \<open>Private keys\<close>

lemma key_regex_0x_valid:
  assumes "test_key_regex h"
  shows "trim (''0x'' @ h) = ''0x'' @ h" and "isValidPrivateKey (''0x'' @ h)"
    and "normalizePrivateKey (''0x'' @ h) = Inr (''0x'' @ h)"
proof -
  from assms have "h \<noteq> []" "\<forall>c\<in>set h. isHexDigit c"
    by (auto simp: test_key_regex_def list_all_iff)
  then have h: "h \<noteq> []" "isHexDigit (last h)"
    by simp_all
  then show t: "trim (''0x'' @ h) = ''0x'' @ h"
    by (intro trim_id) (auto simp: isWhiteSpace_def dest: isHexDigit_not_space)
  show v: "isValidPrivateKey (''0x'' @ h)"
    using assms by (simp add: isValidPrivateKey_def t[simplified] startsWith_def slice_def)
  have "\<not> startsWith (''0x'' @ h) ''suiprivkey''"
    by (simp add: startsWith_def)
  then show "normalizePrivateKey (''0x'' @ h) = Inr (''0x'' @ h)"
    using v by (simp add: normalizePrivateKey_def t[simplified] Let_def startsWith_def slice_def)
qed

lemma normalizePrivateKey_shape:
  assumes "normalizePrivateKey k = Inr r"
  shows "\<exists>h. r = ''0x'' @ h \<and> test_key_regex h"
proof -
  from assms have v: "isValidPrivateKey (trim k)"
    and r: "r = ''0x'' @ (if startsWith (trim k) ''0x'' then slice 2 (trim k) else trim k)"
    by (auto simp: normalizePrivateKey_def Let_def split: if_splits)
  from v have "test_key_regex (if startsWith (trim k) ''0x'' then slice 2 (trim k) else trim k)"
    by (auto simp: isValidPrivateKey_def trim_idem Let_def split: if_splits)
  with r show ?thesis by blast
qed

text \<open>
  Claim C8.  Whenever \<open>normalizePrivateKey\<close> returns a result \<open>r\<close> (it does not throw),
  \<open>r\<close> is \<open>0x\<close> followed by exactly 64 hexadecimal characters, \<open>isValidPrivateKey r\<close>
  holds, and normalizing \<open>r\<close> again returns \<open>r\<close>.
\<close>

theorem normalizePrivateKey_idempotent:
  "normalizePrivateKey k = Inr r \<Longrightarrow>
     (\<exists>h. r = ''0x'' @ h \<and> length h = 64 \<and> list_all isHexDigit h) \<and>
     isValidPrivateKey r \<and> normalizePrivateKey r = Inr r"
proof -
  assume "normalizePrivateKey k = Inr r"
  then obtain h where h: "r = ''0x'' @ h" "test_key_regex h"
    using normalizePrivateKey_shape by blast
  from h(2) have "length h = 64 \<and> list_all isHexDigit h"
    by (simp add: test_key_regex_def)
  with h key_regex_0x_valid[OF h(2)] show ?thesis by blast
qed

theorem normalizePrivateKey_idempotent_witness:
  "normalizePrivateKey ''  ABCDEF0123456789abcdef0123456789ABCDEF0123456789abcdef0123456789 ''
      = Inr ''0xABCDEF0123456789abcdef0123456789ABCDEF0123456789abcdef0123456789'' \<and>
   isValidPrivateKey ''0xABCDEF0123456789abcdef0123456789ABCDEF0123456789abcdef0123456789'' \<and>
   normalizePrivateKey ''0xABCDEF0123456789abcdef0123456789ABCDEF0123456789abcdef0123456789''
      = Inr ''0xABCDEF0123456789abcdef0123456789ABCDEF0123456789abcdef0123456789''"
proof -
  have k: "normalizePrivateKey ''  ABCDEF0123456789abcdef0123456789ABCDEF0123456789abcdef0123456789 ''
      = Inr ''0xABCDEF0123456789abcdef0123456789ABCDEF0123456789abcdef0123456789''"
    by code_simp
  from normalizePrivateKey_idempotent[OF k] k show ?thesis by blast
qed

section \<open>Addresses\<close>

lemma test_address_regex_Nil: "\<not> test_address_regex []"
  by (simp add: test_address_regex_def)

lemma normalizeAddress_Inr:
  "normalizeAddress a = Inr r \<longleftrightarrow> test_address_regex (trim a) \<and> r = toLowerCase (trim a)"
proof (cases "a = []")
  case True
  then show ?thesis
    by (simp add: normalizeAddress_def trim_Nil test_address_regex_Nil)
next
  case False
  then show ?thesis
    by (cases "trim a = []")
       (auto simp: normalizeAddress_def isValidEthereumAddress_def trim_idem trim_Nil
          test_address_regex_Nil Let_def)
qed

lemma normalizeAddress_isl: "isl (normalizeAddress a) \<longleftrightarrow> \<not> isValidEthereumAddress a"
proof (cases "normalizeAddress a")
  case (Inl e)
  then have "\<not> test_address_regex (trim a)"
    using normalizeAddress_Inr[of a "toLowerCase (trim a)"] by simp
  with Inl show ?thesis by (simp add: isValidEthereumAddress_def)
next
  case (Inr r)
  then have "test_address_regex (trim a)" by (simp add: normalizeAddress_Inr)
  moreover from this have "a \<noteq> []" by (auto simp: trim_Nil test_address_regex_Nil)
  ultimately show ?thesis using Inr by (simp add: isValidEthereumAddress_def)
qed

lemma toLowerCase_char_0: "toLowerCase_char (CHR ''0'') = CHR ''0''"
  by code_simp

lemma toLowerCase_char_x: "toLowerCase_char (CHR ''x'') = CHR ''x''"
  by code_simp

lemma toLowerCase_char_X: "toLowerCase_char (CHR ''X'') = CHR ''x''"
  by code_simp

lemma toLowerCase_hex_class:
  "list_all (\<lambda>c. isHexDigit (toLowerCase_char c)) ''0123456789abcdefABCDEF''"
  by code_simp

lemma toLowerCase_char_hex:
  assumes "isHexDigit c"
  shows "isHexDigit (toLowerCase_char c)"
proof -
  from assms have "c \<in> set ''0123456789abcdefABCDEF''"
    by (simp only: isHexDigit_def)
  with toLowerCase_hex_class[unfolded list_all_iff] show ?thesis
    by (rule bspec)
qed

lemma toLowerCase_address:
  assumes "test_address_regex t"
  shows "\<exists>h. toLowerCase t = ''0x'' @ h \<and> length h = 40 \<and> list_all isHexDigit h"
proof -
  from assms obtain c1 rest where t: "t = CHR ''0'' # c1 # rest" "c1 = CHR ''x'' \<or> c1 = CHR ''X''"
    "length rest = 40" "list_all isHexDigit rest"
    by (auto simp: test_address_regex_def split: list.splits)
  have "toLowerCase_char (CHR ''0'') = CHR ''0''" "toLowerCase_char c1 = CHR ''x''"
    using t(2) by (auto simp: toLowerCase_char_0 toLowerCase_char_x toLowerCase_char_X)
  then have "toLowerCase t = ''0x'' @ toLowerCase rest"
    by (simp add: t(1) toLowerCase_def)
  moreover have "list_all isHexDigit (toLowerCase rest)"
    using t(4) by (simp add: toLowerCase_def list_all_iff toLowerCase_char_hex)
  ultimately show ?thesis using t(3) by (simp add: toLowerCase_def)
qed

lemma forEach_push_errors:
  "length (snd (forEach_push i xs (n, e))) = length e + length (filter (\<lambda>a. isl (normalizeAddress a)) xs)"
  by (induction xs arbitrary: i n e) (auto split: sum.splits)

lemma forEach_push_ok:
  "\<forall>a\<in>set xs. \<not> isl (normalizeAddress a) \<Longrightarrow>
     forEach_push i xs (n, e) = (n @ map (\<lambda>a. toLowerCase (trim a)) xs, e)"
  by (induction xs arbitrary: i n e) (auto split: sum.splits simp: normalizeAddress_Inr)

text \<open>
  Claim C9.  \<open>validateAddresses\<close> is all-or-nothing: it throws a ValidationError (field
  \<open>TARGET_ADDRESSES\<close>) when the list is empty or when some entry fails
  \<open>normalizeAddress\<close>; otherwise it returns the list of the trimmed, lower-cased entries,
  in the same order and of the same length, each of them \<open>0x\<close> followed by 40 hexadecimal
  characters.  No other result exists, so no partially normalized list is returned.
\<close>

theorem validateAddresses_all_or_nothing:
  "(addresses = [] \<or> (\<exists>a\<in>set addresses. isl (normalizeAddress a)) \<longrightarrow>
      (\<exists>m. validateAddresses addresses = Inl \<lparr>message = m, field = ''TARGET_ADDRESSES''\<rparr>)) \<and>
   (addresses \<noteq> [] \<and> (\<forall>a\<in>set addresses. \<not> isl (normalizeAddress a)) \<longrightarrow>
      validateAddresses addresses = Inr (map (\<lambda>a. toLowerCase (trim a)) addresses) \<and>
      (\<forall>a\<in>set addresses.
         \<exists>h. toLowerCase (trim a) = ''0x'' @ h \<and> length h = 40 \<and> list_all isHexDigit h))"
proof (intro conjI impI)
  assume bad: "addresses = [] \<or> (\<exists>a\<in>set addresses. isl (normalizeAddress a))"
  show "\<exists>m. validateAddresses addresses = Inl \<lparr>message = m, field = ''TARGET_ADDRESSES''\<rparr>"
  proof (cases "addresses = []")
    case True
    then show ?thesis by (simp add: validateAddresses_def)
  next
    case False
    with bad have "filter (\<lambda>a. isl (normalizeAddress a)) addresses \<noteq> []"
      by (auto simp: filter_empty_conv)
    then have "length (snd (forEach_push 0 addresses ([], []))) > 0"
      by (simp add: forEach_push_errors)
    with False show ?thesis
      by (auto simp: validateAddresses_def split: prod.splits)
  qed
next
  assume ok: "addresses \<noteq> [] \<and> (\<forall>a\<in>set addresses. \<not> isl (normalizeAddress a))"
  then show "validateAddresses addresses = Inr (map (\<lambda>a. toLowerCase (trim a)) addresses)"
    by (simp add: validateAddresses_def forEach_push_ok)
  show "\<forall>a\<in>set addresses.
         \<exists>h. toLowerCase (trim a) = ''0x'' @ h \<and> length h = 40 \<and> list_all isHexDigit h"
  proof
    fix a assume "a \<in> set addresses"
    with ok obtain r where "normalizeAddress a = Inr r"
      by (cases "normalizeAddress a") auto
    then have "test_address_regex (trim a)" by (simp add: normalizeAddress_Inr)
    then show "\<exists>h. toLowerCase (trim a) = ''0x'' @ h \<and> length h = 40 \<and> list_all isHexDigit h"
      by (rule toLowerCase_address)
  qed
qed

theorem validateAddresses_all_or_nothing_witness:
  "validateAddresses
     [''0xAbCdEf0123456789aBcDeF0123456789abcdef01'',
      '' 0X00000000000000000000000000000000000000ff'']
   = Inr [''0xabcdef0123456789abcdef0123456789abcdef01'',
          ''0x00000000000000000000000000000000000000ff''] \<and>
   (\<exists>m. validateAddresses [''0xAbCdEf0123456789aBcDeF0123456789abcdef01'', ''0x12'']
         = Inl \<lparr>message = m, field = ''TARGET_ADDRESSES''\<rparr>) \<and>
   (\<exists>m. validateAddresses [] = Inl \<lparr>message = m, field = ''TARGET_ADDRESSES''\<rparr>)"
proof -
  let ?good = "[''0xAbCdEf0123456789aBcDeF0123456789abcdef01'',
      '' 0X00000000000000000000000000000000000000ff'']"
  let ?bad = "[''0xAbCdEf0123456789aBcDeF0123456789abcdef01'', ''0x12'']"
  have g: "?good \<noteq> [] \<and> (\<forall>a\<in>set ?good. \<not> isl (normalizeAddress a))"
    by code_simp
  have b: "?bad = [] \<or> (\<exists>a\<in>set ?bad. isl (normalizeAddress a))"
    by code_simp
  have m: "map (\<lambda>a. toLowerCase (trim a)) ?good =
     [''0xabcdef0123456789abcdef0123456789abcdef01'',
          ''0x00000000000000000000000000000000000000ff'']"
    by code_simp
  from validateAddresses_all_or_nothing[of ?good] g m
       validateAddresses_all_or_nothing[of ?bad] b
       validateAddresses_all_or_nothing[of "[]"]
  show ?thesis by simp
qed

section \<open>Loading the environment\<close>

lemma js_lt_Finite: "js_lt n (Finite a) \<longleftrightarrow> \<not> isNaN n \<and> \<not> js_le (Finite a) n"
  by (cases n) (auto simp: isNaN_def)

lemma js_gt_Finite: "js_gt n (Finite a) \<longleftrightarrow> \<not> isNaN n \<and> \<not> js_le n (Finite a)"
  by (cases n) (auto simp: isNaN_def js_gt_def)

lemma check_fetchInterval_None: "check_fetchInterval env n = None \<longleftrightarrow> at_least (1/10) n"
  by (auto simp: check_fetchInterval_def at_least_def js_lt_Finite)

lemma check_frontrunSizeMultiplier_None:
  "check_frontrunSizeMultiplier env n = None \<longleftrightarrow> between 0 1 n"
  by (auto simp: check_frontrunSizeMultiplier_def between_def js_lt_Finite js_gt_Finite)

lemma check_gasPriceMultiplier_None: "check_gasPriceMultiplier env n = None \<longleftrightarrow> at_least 1 n"
  by (auto simp: check_gasPriceMultiplier_def at_least_def js_lt_Finite)

lemma number_or_simps:
  "number_or rt None d = d" "number_or rt (Some s) d = Number rt s"
  by (simp_all add: number_or_def)

lemma loadEnv_try_fields:
  assumes "loadEnv_try rt env = Inr r"
  shows "fetchIntervalSeconds r = number_or rt (env ''FETCH_INTERVAL'') (Finite 1)"
    and "frontrunSizeMultiplier r = Some (number_or rt (env ''FRONTRUN_SIZE_MULTIPLIER'') (Finite (1/2)))"
    and "gasPriceMultiplier r = Some (number_or rt (env ''GAS_PRICE_MULTIPLIER'') (Finite (6/5)))"
    and "minTradeSizeUsd r = Some (number_or rt (env ''MIN_TRADE_SIZE_USD'') (Finite 100))"
    and "retryLimit r = number_or rt (env ''RETRY_LIMIT'') (Finite 3)"
  using assms
  by (auto simp: loadEnv_try_def Let_def split: sum.splits option.splits if_splits)

lemma loadEnv_try_valid:
  "(\<exists>r. loadEnv_try rt env = Inr r) \<longleftrightarrow> \<not> validation_fails rt env"
  by (auto simp: loadEnv_try_def validation_fails_def required_def Let_def
        split: sum.splits option.splits if_splits)

lemma loadEnv_Returned: "loadEnv rt env = Returned r \<longleftrightarrow> loadEnv_try rt env = Inr r"
  by (simp add: loadEnv_def split: sum.splits)

lemma loadEnv_ProcessExit: "loadEnv rt env = ProcessExit c e \<longleftrightarrow> c = 1 \<and> loadEnv_try rt env = Inl e"
  by (auto simp add: loadEnv_def split: sum.splits)

lemma loadEnv_try_InrE:
  assumes "loadEnv_try rt env = Inr r"
  obtains ta pub pw raw pk url where
    "validateAddresses (parseList rt (env ''TARGET_ADDRESSES'')) = Inr ta"
    "required ''PUBLIC_KEY'' (env ''PUBLIC_KEY'') = Inr pub"
    "normalizeAddress pub = Inr pw"
    "required ''PRIVATE_KEY'' (env ''PRIVATE_KEY'') = Inr raw"
    "normalizePrivateKey raw = Inr pk"
    "required ''RPC_URL'' (env ''RPC_URL'') = Inr url"
    "isValidRpcUrl rt (trim url)"
    "check_fetchInterval env (number_or rt (env ''FETCH_INTERVAL'') (Finite 1)) = None"
    "check_frontrunSizeMultiplier env (number_or rt (env ''FRONTRUN_SIZE_MULTIPLIER'') (Finite (1/2))) = None"
    "check_gasPriceMultiplier env (number_or rt (env ''GAS_PRICE_MULTIPLIER'') (Finite (6/5))) = None"
  using assms
  by (auto simp: loadEnv_try_def Let_def split: sum.splits option.splits if_splits)

lemma loadEnv_try_frontrun_upd:
  assumes "loadEnv_try rt (env(''FRONTRUN_SIZE_MULTIPLIER'' := None)) = Inr r0"
  shows "loadEnv_try rt (env(''FRONTRUN_SIZE_MULTIPLIER'' \<mapsto> v)) =
     (case check_frontrunSizeMultiplier (env(''FRONTRUN_SIZE_MULTIPLIER'' \<mapsto> v)) (Number rt v) of
        None \<Rightarrow> Inr (r0\<lparr>frontrunSizeMultiplier := Some (Number rt v)\<rparr>)
      | Some e \<Rightarrow> Inl e)"
proof -
  from assms obtain ta pub pw raw pk url where f:
    "validateAddresses (parseList rt (env ''TARGET_ADDRESSES'')) = Inr ta"
    "required ''PUBLIC_KEY'' (env ''PUBLIC_KEY'') = Inr pub"
    "normalizeAddress pub = Inr pw"
    "required ''PRIVATE_KEY'' (env ''PRIVATE_KEY'') = Inr raw"
    "normalizePrivateKey raw = Inr pk"
    "required ''RPC_URL'' (env ''RPC_URL'') = Inr url"
    "isValidRpcUrl rt (trim url)"
    "at_least (1/10) (number_or rt (env ''FETCH_INTERVAL'') (Finite (1)))"
    "at_least 1 (number_or rt (env ''GAS_PRICE_MULTIPLIER'') (Finite (6/5)))"
    by (elim loadEnv_try_InrE)
       (simp add: check_fetchInterval_None check_frontrunSizeMultiplier_None
          check_gasPriceMultiplier_None)
  have c: "check_fetchInterval e (number_or rt (env ''FETCH_INTERVAL'') (Finite (1))) = None"
    "check_gasPriceMultiplier e (number_or rt (env ''GAS_PRICE_MULTIPLIER'') (Finite (6/5))) = None" for e
    using f by (simp_all add: check_fetchInterval_None check_frontrunSizeMultiplier_None
          check_gasPriceMultiplier_None)
  have d: "check_frontrunSizeMultiplier e (Finite (1/2)) = None" for e
    by (simp add: check_fetchInterval_None check_frontrunSizeMultiplier_None
          check_gasPriceMultiplier_None between_def at_least_def isNaN_def)
  show ?thesis
  proof (cases "check_frontrunSizeMultiplier (env(''FRONTRUN_SIZE_MULTIPLIER'' \<mapsto> v)) (Number rt v)")
    case None
    with assms f c d show ?thesis
      by (clarsimp simp: loadEnv_try_def Let_def number_or_simps)
  next
    case (Some e)
    with f c show ?thesis
      by (simp add: loadEnv_try_def Let_def number_or_simps)
  qed
qed

lemma loadEnv_try_gas_upd:
  assumes "loadEnv_try rt (env(''GAS_PRICE_MULTIPLIER'' := None)) = Inr r0"
  shows "loadEnv_try rt (env(''GAS_PRICE_MULTIPLIER'' \<mapsto> v)) =
     (case check_gasPriceMultiplier (env(''GAS_PRICE_MULTIPLIER'' \<mapsto> v)) (Number rt v) of
        None \<Rightarrow> Inr (r0\<lparr>gasPriceMultiplier := Some (Number rt v)\<rparr>)
      | Some e \<Rightarrow> Inl e)"
proof -
  from assms obtain ta pub pw raw pk url where f:
    "validateAddresses (parseList rt (env ''TARGET_ADDRESSES'')) = Inr ta"
    "required ''PUBLIC_KEY'' (env ''PUBLIC_KEY'') = Inr pub"
    "normalizeAddress pub = Inr pw"
    "required ''PRIVATE_KEY'' (env ''PRIVATE_KEY'') = Inr raw"
    "normalizePrivateKey raw = Inr pk"
    "required ''RPC_URL'' (env ''RPC_URL'') = Inr url"
    "isValidRpcUrl rt (trim url)"
    "at_least (1/10) (number_or rt (env ''FETCH_INTERVAL'') (Finite (1)))"
    "between 0 1 (number_or rt (env ''FRONTRUN_SIZE_MULTIPLIER'') (Finite (1/2)))"
    by (elim loadEnv_try_InrE)
       (simp add: check_fetchInterval_None check_frontrunSizeMultiplier_None
          check_gasPriceMultiplier_None)
  have c: "check_fetchInterval e (number_or rt (env ''FETCH_INTERVAL'') (Finite (1))) = None"
    "check_frontrunSizeMultiplier e (number_or rt (env ''FRONTRUN_SIZE_MULTIPLIER'') (Finite (1/2))) = None" for e
    using f by (simp_all add: check_fetchInterval_None check_frontrunSizeMultiplier_None
          check_gasPriceMultiplier_None)
  have d: "check_gasPriceMultiplier e (Finite (6/5)) = None" for e
    by (simp add: check_fetchInterval_None check_frontrunSizeMultiplier_None
          check_gasPriceMultiplier_None between_def at_least_def isNaN_def)
  show ?thesis
  proof (cases "check_gasPriceMultiplier (env(''GAS_PRICE_MULTIPLIER'' \<mapsto> v)) (Number rt v)")
    case None
    with assms f c d show ?thesis
      by (clarsimp simp: loadEnv_try_def Let_def number_or_simps)
  next
    case (Some e)
    with f c show ?thesis
      by (simp add: loadEnv_try_def Let_def number_or_simps)
  qed
qed

lemma loadEnv_try_fetch_upd:
  assumes "loadEnv_try rt (env(''FETCH_INTERVAL'' := None)) = Inr r0"
  shows "loadEnv_try rt (env(''FETCH_INTERVAL'' \<mapsto> v)) =
     (case check_fetchInterval (env(''FETCH_INTERVAL'' \<mapsto> v)) (Number rt v) of
        None \<Rightarrow> Inr (r0\<lparr>fetchIntervalSeconds := Number rt v\<rparr>)
      | Some e \<Rightarrow> Inl e)"
proof -
  from assms obtain ta pub pw raw pk url where f:
    "validateAddresses (parseList rt (env ''TARGET_ADDRESSES'')) = Inr ta"
    "required ''PUBLIC_KEY'' (env ''PUBLIC_KEY'') = Inr pub"
    "normalizeAddress pub = Inr pw"
    "required ''PRIVATE_KEY'' (env ''PRIVATE_KEY'') = Inr raw"
    "normalizePrivateKey raw = Inr pk"
    "required ''RPC_URL'' (env ''RPC_URL'') = Inr url"
    "isValidRpcUrl rt (trim url)"
    "between 0 1 (number_or rt (env ''FRONTRUN_SIZE_MULTIPLIER'') (Finite (1/2)))"
    "at_least 1 (number_or rt (env ''GAS_PRICE_MULTIPLIER'') (Finite (6/5)))"
    by (elim loadEnv_try_InrE)
       (simp add: check_fetchInterval_None check_frontrunSizeMultiplier_None
          check_gasPriceMultiplier_None)
  have c: "check_frontrunSizeMultiplier e (number_or rt (env ''FRONTRUN_SIZE_MULTIPLIER'') (Finite (1/2))) = None"
    "check_gasPriceMultiplier e (number_or rt (env ''GAS_PRICE_MULTIPLIER'') (Finite (6/5))) = None" for e
    using f by (simp_all add: check_fetchInterval_None check_frontrunSizeMultiplier_None
          check_gasPriceMultiplier_None)
  have d: "check_fetchInterval e (Finite (1)) = None" for e
    by (simp add: check_fetchInterval_None check_frontrunSizeMultiplier_None
          check_gasPriceMultiplier_None between_def at_least_def isNaN_def)
  show ?thesis
  proof (cases "check_fetchInterval (env(''FETCH_INTERVAL'' \<mapsto> v)) (Number rt v)")
    case None
    with assms f c d show ?thesis
      by (clarsimp simp: loadEnv_try_def Let_def number_or_simps)
  next
    case (Some e)
    with f c show ?thesis
      by (simp add: loadEnv_try_def Let_def number_or_simps)
  qed
qed


lemma loadEnv_example: "loadEnv example_runtime example_env = Returned example_result"
  by code_simp

lemma loadEnv_example_unset:
  "loadEnv example_runtime (example_env(''FRONTRUN_SIZE_MULTIPLIER'' := None)) = Returned example_result"
  "loadEnv example_runtime (example_env(''GAS_PRICE_MULTIPLIER'' := None)) = Returned example_result"
  "loadEnv example_runtime (example_env(''FETCH_INTERVAL'' := None)) = Returned example_result"
  by code_simp+

lemma Number_examples:
  "Number example_runtime ''0'' = Finite 0"
  "Number example_runtime ''1.5'' = Finite (3/2)"
  "Number example_runtime ''abc'' = NaN"
  "Number example_runtime ''0.05'' = Finite (1/20)"
  "Number example_runtime ''0.9'' = Finite (9/10)"
  by code_simp+


lemma at_least_iff: "at_least lo n \<longleftrightarrow> \<not> (isNaN n \<or> js_lt n (Finite lo))"
  by (auto simp: at_least_def js_lt_Finite)

lemma loadEnv_rejects: "validation_fails rt env \<Longrightarrow> \<exists>e. loadEnv rt env = ProcessExit 1 e"
  using loadEnv_try_valid[of rt env]
  by (cases "loadEnv_try rt env") (auto simp: loadEnv_def)

text \<open>
  Claim C7.  Configuration errors are fatal at startup: whenever a validation of
  \<open>loadEnv\<close> fails (a required variable is missing, an address, the private key or the
  RPC URL is invalid, a checked number is out of range), \<open>loadEnv\<close> returns no
  RuntimeEnv: the process exits with code 1.  When none fails, it returns one.
\<close>

theorem loadEnv_configuration_errors_fatal:
  "(validation_fails rt env \<longrightarrow>
      (\<exists>e. loadEnv rt env = ProcessExit 1 e) \<and> (\<forall>r. loadEnv rt env \<noteq> Returned r)) \<and>
   (\<not> validation_fails rt env \<longrightarrow> (\<exists>r. loadEnv rt env = Returned r))"
proof (intro conjI impI)
  assume "validation_fails rt env"
  then obtain e where e: "loadEnv rt env = ProcessExit 1 e"
    using loadEnv_rejects by blast
  then show "\<exists>e. loadEnv rt env = ProcessExit 1 e" by blast
  from e show "\<forall>r. loadEnv rt env \<noteq> Returned r" by simp
next
  assume "\<not> validation_fails rt env"
  then show "\<exists>r. loadEnv rt env = Returned r"
    by (simp add: loadEnv_Returned loadEnv_try_valid)
qed

theorem loadEnv_configuration_errors_fatal_witness:
  "validation_fails example_runtime (example_env(''PRIVATE_KEY'' \<mapsto> ''suiprivkey1qqqq'')) \<and>
   (\<exists>e. loadEnv example_runtime (example_env(''PRIVATE_KEY'' \<mapsto> ''suiprivkey1qqqq''))
        = ProcessExit 1 e) \<and>
   \<not> validation_fails example_runtime example_env \<and>
   (\<exists>r. loadEnv example_runtime example_env = Returned r)"
proof -
  have a: "validation_fails example_runtime (example_env(''PRIVATE_KEY'' \<mapsto> ''suiprivkey1qqqq''))"
    by code_simp
  have b: "\<not> validation_fails example_runtime example_env"
    by code_simp
  from a b
    loadEnv_configuration_errors_fatal
      [of example_runtime "example_env(''PRIVATE_KEY'' \<mapsto> ''suiprivkey1qqqq'')"]
    loadEnv_configuration_errors_fatal[of example_runtime example_env]
  show ?thesis by blast
qed

text \<open>
  Claim C4.  With \<open>FRONTRUN_SIZE_MULTIPLIER\<close> set to \<open>v\<close>: every RuntimeEnv that
  \<open>loadEnv\<close> returns has \<open>frontrunSizeMultiplier = Number(v)\<close>, a non-NaN number with
  \<open>0 <= Number(v) <= 1\<close>; a value outside that range is always rejected; and in an
  environment that \<open>loadEnv\<close> accepts with the variable unset, \<open>v\<close> is accepted exactly
  when \<open>Number(v)\<close> is in the range (the boundary 0 included), all other fields unchanged,
  and is otherwise rejected with the ValidationError of field \<open>FRONTRUN_SIZE_MULTIPLIER\<close>.
\<close>

theorem loadEnv_frontrunSizeMultiplier:
  "(\<forall>r. loadEnv rt (env(''FRONTRUN_SIZE_MULTIPLIER'' \<mapsto> v)) = Returned r \<longrightarrow>
        frontrunSizeMultiplier r = Some (Number rt v) \<and> between 0 1 (Number rt v)) \<and>
   (\<not> between 0 1 (Number rt v) \<longrightarrow>
        (\<exists>e. loadEnv rt (env(''FRONTRUN_SIZE_MULTIPLIER'' \<mapsto> v)) = ProcessExit 1 e)) \<and>
   (\<forall>r0. loadEnv rt (env(''FRONTRUN_SIZE_MULTIPLIER'' := None)) = Returned r0 \<longrightarrow>
        loadEnv rt (env(''FRONTRUN_SIZE_MULTIPLIER'' \<mapsto> v)) =
          (if between 0 1 (Number rt v)
           then Returned (r0\<lparr>frontrunSizeMultiplier := Some (Number rt v)\<rparr>)
           else ProcessExit 1
                  \<lparr>message = ''Invalid FRONTRUN_SIZE_MULTIPLIER. Must be between 0.0 and 1.0.''
                             @ newline @ ''Got: '' @ v,
                   field = ''FRONTRUN_SIZE_MULTIPLIER''\<rparr>)) \<and>
   (\<forall>r0. loadEnv rt (env(''FRONTRUN_SIZE_MULTIPLIER'' := None)) = Returned r0 \<and>
         Number rt v = Finite 0 \<longrightarrow>
        loadEnv rt (env(''FRONTRUN_SIZE_MULTIPLIER'' \<mapsto> v)) =
          Returned (r0\<lparr>frontrunSizeMultiplier := Some (Finite 0)\<rparr>))"
proof -
  let ?env = "env(''FRONTRUN_SIZE_MULTIPLIER'' \<mapsto> v)"
  have ret: "frontrunSizeMultiplier r = Some (Number rt v) \<and> between 0 1 (Number rt v)"
    if "loadEnv rt ?env = Returned r" for r
  proof -
    from that have t: "loadEnv_try rt ?env = Inr r" by (simp add: loadEnv_Returned)
    then have "check_frontrunSizeMultiplier ?env (Number rt v) = None"
      by (elim loadEnv_try_InrE) (simp add: number_or_simps)
    with loadEnv_try_fields(2)[OF t] show ?thesis
      by (simp add: number_or_simps check_frontrunSizeMultiplier_None)
  qed
  have rej: "\<exists>e. loadEnv rt ?env = ProcessExit 1 e" if "\<not> between 0 1 (Number rt v)"
  proof -
    from that have "validation_fails rt ?env"
      by (simp add: validation_fails_def number_or_simps check_frontrunSizeMultiplier_None)
    then show ?thesis by (rule loadEnv_rejects)
  qed
  have upd: "loadEnv rt ?env =
          (if between 0 1 (Number rt v)
           then Returned (r0\<lparr>frontrunSizeMultiplier := Some (Number rt v)\<rparr>)
           else ProcessExit 1
                  \<lparr>message = ''Invalid FRONTRUN_SIZE_MULTIPLIER. Must be between 0.0 and 1.0.''
                             @ newline @ ''Got: '' @ v,
                   field = ''FRONTRUN_SIZE_MULTIPLIER''\<rparr>)"
    if "loadEnv rt (env(''FRONTRUN_SIZE_MULTIPLIER'' := None)) = Returned r0" for r0
  proof -
    from that have "loadEnv_try rt (env(''FRONTRUN_SIZE_MULTIPLIER'' := None)) = Inr r0"
      by (simp add: loadEnv_Returned)
    note u = loadEnv_try_frontrun_upd[OF this, of v]
    show ?thesis
    proof (cases "between 0 1 (Number rt v)")
      case True
      then have "check_frontrunSizeMultiplier ?env (Number rt v) = None"
        by (simp add: check_frontrunSizeMultiplier_None)
      with u True show ?thesis by (simp add: loadEnv_def)
    next
      case False
      then have "check_frontrunSizeMultiplier ?env (Number rt v) \<noteq> None"
        by (simp add: check_frontrunSizeMultiplier_None)
      then have "check_frontrunSizeMultiplier ?env (Number rt v) =
          Some \<lparr>message = ''Invalid FRONTRUN_SIZE_MULTIPLIER. Must be between 0.0 and 1.0.''
                             @ newline @ ''Got: '' @ v,
                   field = ''FRONTRUN_SIZE_MULTIPLIER''\<rparr>"
        by (simp add: check_frontrunSizeMultiplier_def template_def split: if_splits)
      with u False show ?thesis by (simp add: loadEnv_def)
    qed
  qed
  have zero: "loadEnv rt ?env = Returned (r0\<lparr>frontrunSizeMultiplier := Some (Finite 0)\<rparr>)"
    if "loadEnv rt (env(''FRONTRUN_SIZE_MULTIPLIER'' := None)) = Returned r0"
      and "Number rt v = Finite 0" for r0
    using upd[OF that(1)] that(2) by (simp add: between_def isNaN_def)
  from ret rej upd zero show ?thesis
    by blast
qed

theorem loadEnv_frontrunSizeMultiplier_witness:
  "loadEnv example_runtime (example_env(''FRONTRUN_SIZE_MULTIPLIER'' := None)) = Returned example_result \<and>
   loadEnv example_runtime (example_env(''FRONTRUN_SIZE_MULTIPLIER'' \<mapsto> ''0'')) =
     Returned (example_result\<lparr>frontrunSizeMultiplier := Some (Finite 0)\<rparr>) \<and>
   \<not> between 0 1 (Number example_runtime ''1.5'') \<and>
   loadEnv example_runtime (example_env(''FRONTRUN_SIZE_MULTIPLIER'' \<mapsto> ''1.5'')) =
     ProcessExit 1
       \<lparr>message = ''Invalid FRONTRUN_SIZE_MULTIPLIER. Must be between 0.0 and 1.0.''
                  @ newline @ ''Got: '' @ ''1.5'',
        field = ''FRONTRUN_SIZE_MULTIPLIER''\<rparr> \<and>
   \<not> between 0 1 (Number example_runtime ''abc'') \<and>
   loadEnv example_runtime (example_env(''FRONTRUN_SIZE_MULTIPLIER'' \<mapsto> ''abc'')) =
     ProcessExit 1
       \<lparr>message = ''Invalid FRONTRUN_SIZE_MULTIPLIER. Must be between 0.0 and 1.0.''
                  @ newline @ ''Got: '' @ ''abc'',
        field = ''FRONTRUN_SIZE_MULTIPLIER''\<rparr>"
proof -
  note u = loadEnv_example_unset(1)
  have n: "between 0 1 (Number example_runtime ''0'')"
    "\<not> between 0 1 (Number example_runtime ''1.5'')"
    "\<not> between 0 1 (Number example_runtime ''abc'')"
    by (simp_all add: Number_examples between_def isNaN_def)
  note t = loadEnv_frontrunSizeMultiplier[of example_runtime example_env,
      THEN conjunct2, THEN conjunct2, THEN conjunct1, rule_format, OF u]
  from t[of "''0''"] n(1) have a: "loadEnv example_runtime (example_env(''FRONTRUN_SIZE_MULTIPLIER'' \<mapsto> ''0'')) =
     Returned (example_result\<lparr>frontrunSizeMultiplier := Some (Finite 0)\<rparr>)"
    by (simp only: if_True Number_examples)
  from t[of "''1.5''"] n(2) have b: "loadEnv example_runtime (example_env(''FRONTRUN_SIZE_MULTIPLIER'' \<mapsto> ''1.5'')) =
     ProcessExit 1
       \<lparr>message = ''Invalid FRONTRUN_SIZE_MULTIPLIER. Must be between 0.0 and 1.0.''
                  @ newline @ ''Got: '' @ ''1.5'',
        field = ''FRONTRUN_SIZE_MULTIPLIER''\<rparr>"
    by (simp only: if_False)
  from t[of "''abc''"] n(3) have c: "loadEnv example_runtime (example_env(''FRONTRUN_SIZE_MULTIPLIER'' \<mapsto> ''abc'')) =
     ProcessExit 1
       \<lparr>message = ''Invalid FRONTRUN_SIZE_MULTIPLIER. Must be between 0.0 and 1.0.''
                  @ newline @ ''Got: '' @ ''abc'',
        field = ''FRONTRUN_SIZE_MULTIPLIER''\<rparr>"
    by (simp only: if_False)
  from u n(2,3) a b c show ?thesis
    by (intro conjI)
qed



text \<open>
  Claim C5.  With \<open>GAS_PRICE_MULTIPLIER\<close> set to \<open>v\<close>: every RuntimeEnv that \<open>loadEnv\<close>
  returns has \<open>gasPriceMultiplier = Number(v)\<close>, a non-NaN number with
  \<open>Number(v) >= 1.0\<close>; a value outside that range is always rejected; and in an
  environment that \<open>loadEnv\<close> accepts with the variable unset, \<open>v\<close> is accepted exactly
  when \<open>Number(v)\<close> is in the range, all other fields unchanged, and is otherwise rejected
  with the ValidationError of field \<open>GAS_PRICE_MULTIPLIER\<close>.
\<close>

theorem loadEnv_gasPriceMultiplier:
  "(\<forall>r. loadEnv rt (env(''GAS_PRICE_MULTIPLIER'' \<mapsto> v)) = Returned r \<longrightarrow>
        gasPriceMultiplier r = Some (Number rt v) \<and> at_least 1 (Number rt v)) \<and>
   (\<not> at_least 1 (Number rt v) \<longrightarrow>
        (\<exists>e. loadEnv rt (env(''GAS_PRICE_MULTIPLIER'' \<mapsto> v)) = ProcessExit 1 e)) \<and>
   (\<forall>r0. loadEnv rt (env(''GAS_PRICE_MULTIPLIER'' := None)) = Returned r0 \<longrightarrow>
        loadEnv rt (env(''GAS_PRICE_MULTIPLIER'' \<mapsto> v)) =
          (if at_least 1 (Number rt v)
           then Returned (r0\<lparr>gasPriceMultiplier := Some (Number rt v)\<rparr>)
           else ProcessExit 1
                  \<lparr>message = ''Invalid GAS_PRICE_MULTIPLIER. Must be >= 1.0.''
                             @ newline @ ''Got: '' @ v,
                   field = ''GAS_PRICE_MULTIPLIER''\<rparr>))"
proof -
  let ?env = "env(''GAS_PRICE_MULTIPLIER'' \<mapsto> v)"
  have ret: "gasPriceMultiplier r = Some (Number rt v) \<and> at_least 1 (Number rt v)"
    if "loadEnv rt ?env = Returned r" for r
  proof -
    from that have t: "loadEnv_try rt ?env = Inr r" by (simp add: loadEnv_Returned)
    then have "check_gasPriceMultiplier ?env (Number rt v) = None"
      by (elim loadEnv_try_InrE) (simp add: number_or_simps)
    with loadEnv_try_fields(3)[OF t] show ?thesis
      by (simp add: number_or_simps check_gasPriceMultiplier_None)
  qed
  have rej: "\<exists>e. loadEnv rt ?env = ProcessExit 1 e" if "\<not> at_least 1 (Number rt v)"
  proof -
    from that have "validation_fails rt ?env"
      by (simp add: validation_fails_def number_or_simps check_gasPriceMultiplier_None)
    then show ?thesis by (rule loadEnv_rejects)
  qed
  have upd: "loadEnv rt ?env =
          (if at_least 1 (Number rt v)
           then Returned (r0\<lparr>gasPriceMultiplier := Some (Number rt v)\<rparr>)
           else ProcessExit 1
                  \<lparr>message = ''Invalid GAS_PRICE_MULTIPLIER. Must be >= 1.0.''
                             @ newline @ ''Got: '' @ v,
                   field = ''GAS_PRICE_MULTIPLIER''\<rparr>)"
    if "loadEnv rt (env(''GAS_PRICE_MULTIPLIER'' := None)) = Returned r0" for r0
  proof -
    from that have "loadEnv_try rt (env(''GAS_PRICE_MULTIPLIER'' := None)) = Inr r0"
      by (simp add: loadEnv_Returned)
    note u = loadEnv_try_gas_upd[OF this, of v]
    show ?thesis
    proof (cases "at_least 1 (Number rt v)")
      case True
      then have "check_gasPriceMultiplier ?env (Number rt v) = None"
        by (simp add: check_gasPriceMultiplier_None)
      with u True show ?thesis by (simp add: loadEnv_def)
    next
      case False
      then have "check_gasPriceMultiplier ?env (Number rt v) \<noteq> None"
        by (simp add: check_gasPriceMultiplier_None)
      then have "check_gasPriceMultiplier ?env (Number rt v) =
          Some \<lparr>message = ''Invalid GAS_PRICE_MULTIPLIER. Must be >= 1.0.''
                             @ newline @ ''Got: '' @ v,
                   field = ''GAS_PRICE_MULTIPLIER''\<rparr>"
        by (simp add: check_gasPriceMultiplier_def template_def split: if_splits)
      with u False show ?thesis by (simp add: loadEnv_def)
    qed
  qed
  from ret rej upd show ?thesis
    by blast
qed

theorem loadEnv_gasPriceMultiplier_witness:
  "loadEnv example_runtime (example_env(''GAS_PRICE_MULTIPLIER'' := None)) = Returned example_result \<and>
   loadEnv example_runtime (example_env(''GAS_PRICE_MULTIPLIER'' \<mapsto> ''1.5'')) =
     Returned (example_result\<lparr>gasPriceMultiplier := Some (Finite (3/2))\<rparr>) \<and>
   \<not> at_least 1 (Number example_runtime ''0.9'') \<and>
   loadEnv example_runtime (example_env(''GAS_PRICE_MULTIPLIER'' \<mapsto> ''0.9'')) =
     ProcessExit 1
       \<lparr>message = ''Invalid GAS_PRICE_MULTIPLIER. Must be >= 1.0.'' @ newline @ ''Got: '' @ ''0.9'',
        field = ''GAS_PRICE_MULTIPLIER''\<rparr> \<and>
   \<not> at_least 1 (Number example_runtime ''abc'') \<and>
   loadEnv example_runtime (example_env(''GAS_PRICE_MULTIPLIER'' \<mapsto> ''abc'')) =
     ProcessExit 1
       \<lparr>message = ''Invalid GAS_PRICE_MULTIPLIER. Must be >= 1.0.'' @ newline @ ''Got: '' @ ''abc'',
        field = ''GAS_PRICE_MULTIPLIER''\<rparr>"
proof -
  note u = loadEnv_example_unset(2)
  have n: "at_least 1 (Number example_runtime ''1.5'')"
    "\<not> at_least 1 (Number example_runtime ''0.9'')"
    "\<not> at_least 1 (Number example_runtime ''abc'')"
    by (simp_all add: Number_examples at_least_def isNaN_def)
  note t = loadEnv_gasPriceMultiplier[of example_runtime example_env,
      THEN conjunct2, THEN conjunct2, rule_format, OF u]
  from t[of "''1.5''"] n(1) have a: "loadEnv example_runtime (example_env(''GAS_PRICE_MULTIPLIER'' \<mapsto> ''1.5'')) =
     Returned (example_result\<lparr>gasPriceMultiplier := Some (Finite (3/2))\<rparr>)"
    by (simp only: if_True Number_examples)
  from t[of "''0.9''"] n(2) have b: "loadEnv example_runtime (example_env(''GAS_PRICE_MULTIPLIER'' \<mapsto> ''0.9'')) =
     ProcessExit 1
       \<lparr>message = ''Invalid GAS_PRICE_MULTIPLIER. Must be >= 1.0.'' @ newline @ ''Got: '' @ ''0.9'',
        field = ''GAS_PRICE_MULTIPLIER''\<rparr>"
    by (simp only: if_False)
  from t[of "''abc''"] n(3) have c: "loadEnv example_runtime (example_env(''GAS_PRICE_MULTIPLIER'' \<mapsto> ''abc'')) =
     ProcessExit 1
       \<lparr>message = ''Invalid GAS_PRICE_MULTIPLIER. Must be >= 1.0.'' @ newline @ ''Got: '' @ ''abc'',
        field = ''GAS_PRICE_MULTIPLIER''\<rparr>"
    by (simp only: if_False)
  from u n(2,3) a b c show ?thesis
    by (intro conjI)
qed


lemma loadEnv_try_fetch_rejected:
  assumes "\<not> earlier_checks_fail rt env"
    and "check_fetchInterval env (number_or rt (env ''FETCH_INTERVAL'') (Finite 1)) = Some e"
  shows "loadEnv_try rt env = Inl e"
  using assms
  by (auto simp: loadEnv_try_def earlier_checks_fail_def required_def Let_def
        split: sum.splits option.splits if_splits)

text \<open>
  Claim C6, as amended.  \<open>loadEnv\<close> enforces a floor on the poll interval.  Every
  RuntimeEnv it returns has \<open>fetchIntervalSeconds >= 0.1\<close>.  An environment whose
  \<open>FETCH_INTERVAL\<close> is NaN or below 0.1 under \<open>Number\<close> is always rejected, and the
  rejection is the ValidationError of field \<open>FETCH_INTERVAL\<close> whenever the checks that
  run before it (target addresses, \<open>PUBLIC_KEY\<close>, \<open>PRIVATE_KEY\<close>, \<open>RPC_URL\<close>) pass.
\<close>

theorem loadEnv_fetchInterval_floor:
  "(\<forall>r. loadEnv rt env = Returned r \<longrightarrow> at_least (1/10) (fetchIntervalSeconds r)) \<and>
   (env ''FETCH_INTERVAL'' = Some v \<and>
    (isNaN (Number rt v) \<or> js_lt (Number rt v) (Finite (1/10))) \<longrightarrow>
        (\<exists>e. loadEnv rt env = ProcessExit 1 e) \<and>
        (\<not> earlier_checks_fail rt env \<longrightarrow>
           loadEnv rt env =
             ProcessExit 1
               \<lparr>message = ''Invalid FETCH_INTERVAL. Must be a positive number (seconds).''
                          @ newline @ ''Got: '' @ v,
                field = ''FETCH_INTERVAL''\<rparr>))"
proof -
  have ret: "at_least (1/10) (fetchIntervalSeconds r)" if "loadEnv rt env = Returned r" for r
  proof -
    from that have t: "loadEnv_try rt env = Inr r" by (simp add: loadEnv_Returned)
    then have "check_fetchInterval env (number_or rt (env ''FETCH_INTERVAL'') (Finite 1)) = None"
      by (elim loadEnv_try_InrE)
    with loadEnv_try_fields(1)[OF t] show ?thesis
      by (simp add: check_fetchInterval_None)
  qed
  have rej: "\<exists>e. loadEnv rt env = ProcessExit 1 e"
    if "env ''FETCH_INTERVAL'' = Some v"
      and "isNaN (Number rt v) \<or> js_lt (Number rt v) (Finite (1/10))"
  proof -
    from that have "validation_fails rt env"
      by (simp add: validation_fails_def number_or_simps check_fetchInterval_None at_least_iff)
    then show ?thesis by (rule loadEnv_rejects)
  qed
  have field: "loadEnv rt env =
             ProcessExit 1
               \<lparr>message = ''Invalid FETCH_INTERVAL. Must be a positive number (seconds).''
                          @ newline @ ''Got: '' @ v,
                field = ''FETCH_INTERVAL''\<rparr>"
    if v: "env ''FETCH_INTERVAL'' = Some v"
      and bad: "isNaN (Number rt v) \<or> js_lt (Number rt v) (Finite (1/10))"
      and ok: "\<not> earlier_checks_fail rt env"
  proof -
    from v bad have "check_fetchInterval env (number_or rt (env ''FETCH_INTERVAL'') (Finite 1)) =
        Some \<lparr>message = ''Invalid FETCH_INTERVAL. Must be a positive number (seconds).''
                          @ newline @ ''Got: '' @ v,
                field = ''FETCH_INTERVAL''\<rparr>"
      by (simp add: check_fetchInterval_def number_or_simps template_def)
    from loadEnv_try_fetch_rejected[OF ok this] show ?thesis
      by (simp add: loadEnv_def)
  qed
  from ret rej field show ?thesis
    by blast
qed

theorem loadEnv_fetchInterval_floor_witness:
  "loadEnv example_runtime example_env = Returned example_result \<and>
   at_least (1/10) (fetchIntervalSeconds example_result) \<and>
   (example_env(''FETCH_INTERVAL'' \<mapsto> ''0.05'')) ''FETCH_INTERVAL'' = Some ''0.05'' \<and>
   js_lt (Number example_runtime ''0.05'') (Finite (1/10)) \<and>
   \<not> earlier_checks_fail example_runtime (example_env(''FETCH_INTERVAL'' \<mapsto> ''0.05'')) \<and>
   loadEnv example_runtime (example_env(''FETCH_INTERVAL'' \<mapsto> ''0.05'')) =
     ProcessExit 1
       \<lparr>message = ''Invalid FETCH_INTERVAL. Must be a positive number (seconds).''
                  @ newline @ ''Got: '' @ ''0.05'',
        field = ''FETCH_INTERVAL''\<rparr>"
proof -
  note u = loadEnv_example
  have a: "at_least (1/10) (fetchIntervalSeconds example_result)"
    using loadEnv_fetchInterval_floor[of example_runtime example_env,
        THEN conjunct1, rule_format, OF u] .
  have e: "(example_env(''FETCH_INTERVAL'' \<mapsto> ''0.05'')) ''FETCH_INTERVAL'' = Some ''0.05''"
    by simp
  have n: "js_lt (Number example_runtime ''0.05'') (Finite (1/10))"
    by (simp add: Number_examples)
  have k: "\<not> earlier_checks_fail example_runtime (example_env(''FETCH_INTERVAL'' \<mapsto> ''0.05''))"
    by code_simp
  have b: "loadEnv example_runtime (example_env(''FETCH_INTERVAL'' \<mapsto> ''0.05'')) =
     ProcessExit 1
       \<lparr>message = ''Invalid FETCH_INTERVAL. Must be a positive number (seconds).''
                  @ newline @ ''Got: '' @ ''0.05'',
        field = ''FETCH_INTERVAL''\<rparr>"
    using loadEnv_fetchInterval_floor[of example_runtime
          "example_env(''FETCH_INTERVAL'' \<mapsto> ''0.05'')" "''0.05''",
        THEN conjunct2, rule_format, OF conjI, OF e disjI2, OF n, THEN conjunct2, rule_format, OF k] .
  from u a e n k b show ?thesis
    by (intro conjI)
qed

text \<open>
  The claim as first stated fails: the checks run in order and the first failure is the
  one reported, so with a Sui private key and \<open>FETCH_INTERVAL=0.05\<close> the rejection is the
  ValidationError of field \<open>PRIVATE_KEY\<close>, not of \<open>FETCH_INTERVAL\<close>.
\<close>

theorem loadEnv_fetchInterval_counterexample:
  "js_lt (Number example_runtime ''0.05'') (Finite (1/10)) \<and>
   loadEnv example_runtime
     (example_env(''PRIVATE_KEY'' \<mapsto> ''suiprivkey1qqqq'', ''FETCH_INTERVAL'' \<mapsto> ''0.05'')) =
     ProcessExit 1
       \<lparr>message =
          ''Detected Sui private key format. This bot requires Polygon (Ethereum-compatible) private keys.''
          @ newline @
          ''Please export your Polygon wallet private key (hex format, 64 characters).'',
        field = ''PRIVATE_KEY''\<rparr>"
  by code_simp

text \<open>
  Claim C2, as amended.  Every RuntimeEnv that \<open>loadEnv\<close> returns has a poll interval
  that is a non-NaN number at or above 0.1, a frontrun size multiplier within 0.0-1.0 and
  a gas price multiplier \<open>>= 1.0\<close>, and a malformed or out-of-range value of one of these
  three makes \<open>loadEnv\<close> reject the configuration.  The minimum trade size and the retry
  limit are not validated: they are \<open>Number\<close> of the variable (100 and 3 when unset),
  whatever that is.
\<close>

theorem loadEnv_validated_fields:
  "(\<forall>r. loadEnv rt env = Returned r \<longrightarrow>
        at_least (1/10) (fetchIntervalSeconds r) \<and>
        (\<exists>n. frontrunSizeMultiplier r = Some n \<and> between 0 1 n) \<and>
        (\<exists>n. gasPriceMultiplier r = Some n \<and> at_least 1 n) \<and>
        minTradeSizeUsd r = Some (number_or rt (env ''MIN_TRADE_SIZE_USD'') (Finite 100)) \<and>
        retryLimit r = number_or rt (env ''RETRY_LIMIT'') (Finite 3)) \<and>
   (\<not> at_least (1/10) (number_or rt (env ''FETCH_INTERVAL'') (Finite 1)) \<or>
    \<not> between 0 1 (number_or rt (env ''FRONTRUN_SIZE_MULTIPLIER'') (Finite (1/2))) \<or>
    \<not> at_least 1 (number_or rt (env ''GAS_PRICE_MULTIPLIER'') (Finite (6/5))) \<longrightarrow>
        (\<exists>e. loadEnv rt env = ProcessExit 1 e))"
proof (intro conjI allI impI)
  fix r assume "loadEnv rt env = Returned r"
  then have t: "loadEnv_try rt env = Inr r" by (simp add: loadEnv_Returned)
  then have c: "at_least (1/10) (number_or rt (env ''FETCH_INTERVAL'') (Finite 1))"
    "between 0 1 (number_or rt (env ''FRONTRUN_SIZE_MULTIPLIER'') (Finite (1/2)))"
    "at_least 1 (number_or rt (env ''GAS_PRICE_MULTIPLIER'') (Finite (6/5)))"
    by (elim loadEnv_try_InrE;
        simp add: check_fetchInterval_None check_frontrunSizeMultiplier_None
          check_gasPriceMultiplier_None)+
  from c(1) loadEnv_try_fields(1)[OF t] show "at_least (1/10) (fetchIntervalSeconds r)"
    by simp
  from c(2) loadEnv_try_fields(2)[OF t]
  show "\<exists>n. frontrunSizeMultiplier r = Some n \<and> between 0 1 n"
    by simp
  from c(3) loadEnv_try_fields(3)[OF t]
  show "\<exists>n. gasPriceMultiplier r = Some n \<and> at_least 1 n"
    by simp
  from loadEnv_try_fields(4)[OF t]
  show "minTradeSizeUsd r = Some (number_or rt (env ''MIN_TRADE_SIZE_USD'') (Finite 100))" .
  from loadEnv_try_fields(5)[OF t]
  show "retryLimit r = number_or rt (env ''RETRY_LIMIT'') (Finite 3)" .
next
  assume "\<not> at_least (1/10) (number_or rt (env ''FETCH_INTERVAL'') (Finite 1)) \<or>
    \<not> between 0 1 (number_or rt (env ''FRONTRUN_SIZE_MULTIPLIER'') (Finite (1/2))) \<or>
    \<not> at_least 1 (number_or rt (env ''GAS_PRICE_MULTIPLIER'') (Finite (6/5)))"
  then have "validation_fails rt env"
    by (auto simp: validation_fails_def check_fetchInterval_None
          check_frontrunSizeMultiplier_None check_gasPriceMultiplier_None)
  then show "\<exists>e. loadEnv rt env = ProcessExit 1 e"
    by (rule loadEnv_rejects)
qed

theorem loadEnv_validated_fields_witness:
  "loadEnv example_runtime example_env = Returned example_result \<and>
   at_least (1/10) (fetchIntervalSeconds example_result) \<and>
   (\<exists>n. frontrunSizeMultiplier example_result = Some n \<and> between 0 1 n) \<and>
   (\<exists>n. gasPriceMultiplier example_result = Some n \<and> at_least 1 n) \<and>
   \<not> at_least 1 (number_or example_runtime
        ((example_env(''GAS_PRICE_MULTIPLIER'' \<mapsto> ''0.9'')) ''GAS_PRICE_MULTIPLIER'') (Finite (6/5))) \<and>
   (\<exists>e. loadEnv example_runtime (example_env(''GAS_PRICE_MULTIPLIER'' \<mapsto> ''0.9'')) = ProcessExit 1 e)"
proof -
  note u = loadEnv_example
  note t = loadEnv_validated_fields[of example_runtime example_env, THEN conjunct1, rule_format, OF u]
  have n: "\<not> at_least 1 (number_or example_runtime
        ((example_env(''GAS_PRICE_MULTIPLIER'' \<mapsto> ''0.9'')) ''GAS_PRICE_MULTIPLIER'') (Finite (6/5)))"
    by (simp add: number_or_simps Number_examples at_least_def isNaN_def)
  have r: "\<exists>e. loadEnv example_runtime (example_env(''GAS_PRICE_MULTIPLIER'' \<mapsto> ''0.9'')) = ProcessExit 1 e"
    using loadEnv_validated_fields[of example_runtime "example_env(''GAS_PRICE_MULTIPLIER'' \<mapsto> ''0.9'')",
       THEN conjunct2, rule_format, OF disjI2, OF disjI2, OF n] .
  from u t n r show ?thesis by blast
qed

text \<open>
  The claim as first stated fails: with \<open>MIN_TRADE_SIZE_USD=abc\<close> and
  \<open>RETRY_LIMIT=many\<close> in an otherwise valid environment \<open>loadEnv\<close> returns a RuntimeEnv
  whose minimum trade size and retry limit are NaN.
\<close>

theorem loadEnv_unvalidated_counterexample:
  "Number example_runtime ''abc'' = NaN \<and>
   Number example_runtime ''many'' = NaN \<and>
   loadEnv example_runtime
     (example_env(''MIN_TRADE_SIZE_USD'' \<mapsto> ''abc'', ''RETRY_LIMIT'' \<mapsto> ''many'')) =
     Returned (example_result\<lparr>retryLimit := NaN, minTradeSizeUsd := Some NaN\<rparr>)"
  by code_simp

section \<open>Properties of the client factory\<close>

lemma createPolymarketClient_try_invalid_key:
  "normalizePrivateKey (privateKey input) = Inl e \<Longrightarrow>
     createPolymarketClient_try lib input = ([], Inl (ThrowValidationError e))"
  by (simp add: createPolymarketClient_try_def)

lemma createPolymarketClient_try_valid_key:
  assumes "normalizePrivateKey (privateKey input) = Inr k"
    and "createPolymarketClient_try lib input = (calls, Inl x)"
  shows "\<exists>t. x = Throw t" and "calls \<noteq> []" and "hd calls = RpcConnect (rpcUrl input)"
  using assms
  by (auto simp: createPolymarketClient_try_def split: option.splits sum.splits if_splits)

lemma createPolymarketClient_try_calls:
  assumes "createPolymarketClient_try lib input = (calls, res)" and "calls \<noteq> []"
  shows "\<not> isl (normalizePrivateKey (privateKey input)) \<and> hd calls = RpcConnect (rpcUrl input)"
  using assms
  by (auto simp: createPolymarketClient_try_def split: option.splits sum.splits if_splits)

lemma createPolymarketClient_calls:
  "fst (createPolymarketClient lib input) = fst (createPolymarketClient_try lib input)"
  by (auto simp: createPolymarketClient_def split: prod.splits sum.splits js_exception.splits)

text \<open>
  Claim C10.  \<open>createPolymarketClient\<close> validates the private key before any library
  call: when \<open>normalizePrivateKey\<close> rejects the key, the call throws that very
  ValidationError, unwrapped, and no call (no RPC connection) has been made.  Any other
  failure is a plain \<open>Error\<close> whose message starts with
  \<open>Failed to create Polymarket client: \<close>.
\<close>

theorem createPolymarketClient_validation_first:
  "(\<forall>e. normalizePrivateKey (privateKey input) = Inl e \<longrightarrow>
        createPolymarketClient lib input = ([], Inl (ThrowValidationError e))) \<and>
   (\<forall>calls res. createPolymarketClient lib input = (calls, res) \<and> calls \<noteq> [] \<longrightarrow>
        \<not> isl (normalizePrivateKey (privateKey input)) \<and> hd calls = RpcConnect (rpcUrl input)) \<and>
   (\<forall>calls x. createPolymarketClient lib input = (calls, Inl x) \<and>
        \<not> isl (normalizePrivateKey (privateKey input)) \<longrightarrow>
        (\<exists>m. x = Throw (ErrorInstance (''Failed to create Polymarket client: '' @ m))))"
proof (intro conjI allI impI)
  fix e assume "normalizePrivateKey (privateKey input) = Inl e"
  then show "createPolymarketClient lib input = ([], Inl (ThrowValidationError e))"
    by (simp add: createPolymarketClient_def createPolymarketClient_try_invalid_key)
next
  fix calls res
  assume a: "createPolymarketClient lib input = (calls, res) \<and> calls \<noteq> []"
  obtain calls' res' where t: "createPolymarketClient_try lib input = (calls', res')"
    by (cases "createPolymarketClient_try lib input")
  with a createPolymarketClient_calls[of lib input] have "calls' = calls" by simp
  with t a createPolymarketClient_try_calls[of lib input calls res']
  show "\<not> isl (normalizePrivateKey (privateKey input))" "hd calls = RpcConnect (rpcUrl input)"
    by simp_all
next
  fix calls x
  assume a: "createPolymarketClient lib input = (calls, Inl x) \<and>
        \<not> isl (normalizePrivateKey (privateKey input))"
  then obtain k where k: "normalizePrivateKey (privateKey input) = Inr k"
    by (cases "normalizePrivateKey (privateKey input)") auto
  obtain calls' res' where t: "createPolymarketClient_try lib input = (calls', res')"
    by (cases "createPolymarketClient_try lib input")
  show "\<exists>m. x = Throw (ErrorInstance (''Failed to create Polymarket client: '' @ m))"
  proof (cases res')
    case (Inr r)
    with t a show ?thesis by (simp add: createPolymarketClient_def)
  next
    case (Inl y)
    with t createPolymarketClient_try_valid_key(1)[OF k, of lib calls' y]
    obtain th where "y = Throw th" by auto
    with Inl t a show ?thesis by (auto simp: createPolymarketClient_def)
  qed
qed

theorem createPolymarketClient_validation_first_witness:
  "normalizePrivateKey (privateKey (example_input ''https://polygon-rpc.com'' ''suiprivkey1qqqq'')) =
     Inl \<lparr>message =
             ''Detected Sui private key format. This bot requires Polygon (Ethereum-compatible) private keys.''
             @ newline @
             ''Please export your Polygon wallet private key (hex format, 64 characters).'',
          field = ''PRIVATE_KEY''\<rparr> \<and>
   createPolymarketClient example_libraries
       (example_input ''https://polygon-rpc.com'' ''suiprivkey1qqqq'') =
     ([], Inl (ThrowValidationError
        \<lparr>message =
             ''Detected Sui private key format. This bot requires Polygon (Ethereum-compatible) private keys.''
             @ newline @
             ''Please export your Polygon wallet private key (hex format, 64 characters).'',
          field = ''PRIVATE_KEY''\<rparr>)) \<and>
   createPolymarketClient example_libraries
       (example_input ''http://down.example''
          ''ABCDEF0123456789abcdef0123456789ABCDEF0123456789abcdef0123456789'') =
     ([RpcConnect ''http://down.example''],
      Inl (Throw (ErrorInstance
        (''Failed to create Polymarket client: '' @
         ''Failed to connect to RPC endpoint: http://down.example'' @ newline @
         ''Error: could not detect network'' @ newline @
         ''Please verify your RPC_URL is correct and accessible.'')))) \<and>
   (\<exists>m. Throw (ErrorInstance
        (''Failed to create Polymarket client: '' @
         ''Failed to connect to RPC endpoint: http://down.example'' @ newline @
         ''Error: could not detect network'' @ newline @
         ''Please verify your RPC_URL is correct and accessible.'')) =
       Throw (ErrorInstance (''Failed to create Polymarket client: '' @ m)))"
proof -
  let ?bad = "example_input ''https://polygon-rpc.com'' ''suiprivkey1qqqq''"
  let ?down = "example_input ''http://down.example''
          ''ABCDEF0123456789abcdef0123456789ABCDEF0123456789abcdef0123456789''"
  have k: "normalizePrivateKey (privateKey ?bad) =
     Inl \<lparr>message =
             ''Detected Sui private key format. This bot requires Polygon (Ethereum-compatible) private keys.''
             @ newline @
             ''Please export your Polygon wallet private key (hex format, 64 characters).'',
          field = ''PRIVATE_KEY''\<rparr>"
    by code_simp
  note a = createPolymarketClient_validation_first[of ?bad example_libraries,
      THEN conjunct1, rule_format, OF k]
  have d: "createPolymarketClient example_libraries ?down =
     ([RpcConnect ''http://down.example''],
      Inl (Throw (ErrorInstance
        (''Failed to create Polymarket client: '' @
         ''Failed to connect to RPC endpoint: http://down.example'' @ newline @
         ''Error: could not detect network'' @ newline @
         ''Please verify your RPC_URL is correct and accessible.''))))"
    by code_simp
  have v: "\<not> isl (normalizePrivateKey (privateKey ?down))"
    by code_simp
  note b = createPolymarketClient_validation_first[of ?down example_libraries,
      THEN conjunct2, THEN conjunct2, rule_format, OF conjI, OF d v]
  from k a d b show ?thesis
    by (intro conjI)
qed

section \<open>Properties of the Decision Engine\<close>

text \<open>
  Claim C3.  Every ExecutionRequest the Decision Engine emits has
  \<open>requestedSizeUsd = netSizeUsd * frontrunSizeMultiplier\<close> and
  \<open>gasPriceHint = currentGasPrice * gasPriceMultiplier\<close>, and a signal that passes the
  threshold, duplicate and balance filters is answered with such a request.  With
  \<open>netSizeUsd = 500\<close>, multiplier 0.5 and threshold 100 the request has size 250; with
  gas multiplier 1.2 and current gas price 30 the hint is 36.
\<close>

theorem decide_request_sizes:
  "(\<forall>req fl'. decide cfg col fl sig = (Emit req, fl') \<longrightarrow>
        requestedSizeUsd req = netSizeUsd sig * cfg_frontrunSizeMultiplier cfg \<and>
        gasPriceHint req = currentGasPrice col * cfg_gasPriceMultiplier cfg) \<and>
   (\<not> netSizeUsd sig < cfg_minTradeSizeUsd cfg \<and>
    netSizeUsd sig * cfg_frontrunSizeMultiplier cfg \<noteq> 0 \<and>
    (aggAccount sig, aggMarket sig, aggSide sig) \<notin> fl \<and>
    hasSufficientBalance col (aggAccount sig) (aggSide sig)
      (netSizeUsd sig * cfg_frontrunSizeMultiplier cfg) \<longrightarrow>
        (\<exists>req. decide cfg col fl sig = (Emit req, insert (aggAccount sig, aggMarket sig, aggSide sig) fl))) \<and>
   (netSizeUsd sig = 500 \<and> cfg_frontrunSizeMultiplier cfg = 1/2 \<and> cfg_minTradeSizeUsd cfg = 100 \<and>
    (aggAccount sig, aggMarket sig, aggSide sig) \<notin> fl \<and>
    hasSufficientBalance col (aggAccount sig) (aggSide sig) 250 \<longrightarrow>
        (\<exists>req fl'. decide cfg col fl sig = (Emit req, fl') \<and> requestedSizeUsd req = 250)) \<and>
   (cfg_gasPriceMultiplier cfg = 6/5 \<and> currentGasPrice col = 30 \<longrightarrow>
        (\<forall>req fl'. decide cfg col fl sig = (Emit req, fl') \<longrightarrow> gasPriceHint req = 36))"
proof -
  have emit: "requestedSizeUsd req = netSizeUsd sig * cfg_frontrunSizeMultiplier cfg \<and>
        gasPriceHint req = currentGasPrice col * cfg_gasPriceMultiplier cfg"
    if "decide cfg col fl sig = (Emit req, fl')" for req fl'
    using that by (auto simp: decide_def Let_def split: if_splits)
  have pass: "\<exists>req. decide cfg col fl sig = (Emit req, insert (aggAccount sig, aggMarket sig, aggSide sig) fl)"
    if "\<not> netSizeUsd sig < cfg_minTradeSizeUsd cfg"
      "netSizeUsd sig * cfg_frontrunSizeMultiplier cfg \<noteq> 0"
      "(aggAccount sig, aggMarket sig, aggSide sig) \<notin> fl"
      "hasSufficientBalance col (aggAccount sig) (aggSide sig)
         (netSizeUsd sig * cfg_frontrunSizeMultiplier cfg)"
    using that by (simp add: decide_def Let_def)
  have ex1: "\<exists>req fl'. decide cfg col fl sig = (Emit req, fl') \<and> requestedSizeUsd req = 250"
    if "netSizeUsd sig = 500" "cfg_frontrunSizeMultiplier cfg = 1/2" "cfg_minTradeSizeUsd cfg = 100"
      "(aggAccount sig, aggMarket sig, aggSide sig) \<notin> fl"
      "hasSufficientBalance col (aggAccount sig) (aggSide sig) 250"
  proof -
    from that(1,2) have size: "netSizeUsd sig * cfg_frontrunSizeMultiplier cfg = 250"
      by simp
    have "\<exists>req. decide cfg col fl sig =
        (Emit req, insert (aggAccount sig, aggMarket sig, aggSide sig) fl)"
    proof (rule pass)
      show "\<not> netSizeUsd sig < cfg_minTradeSizeUsd cfg"
        using that(1,3) by simp
      show "netSizeUsd sig * cfg_frontrunSizeMultiplier cfg \<noteq> 0"
        unfolding size by simp
      show "(aggAccount sig, aggMarket sig, aggSide sig) \<notin> fl"
        by (rule that(4))
      show "hasSufficientBalance col (aggAccount sig) (aggSide sig)
         (netSizeUsd sig * cfg_frontrunSizeMultiplier cfg)"
        unfolding size by (rule that(5))
    qed
    then obtain req where
      req: "decide cfg col fl sig = (Emit req, insert (aggAccount sig, aggMarket sig, aggSide sig) fl)"
      by blast
    from emit[OF req] size have "requestedSizeUsd req = 250"
      by (simp only:)
    with req show ?thesis by blast
  qed
  have ex2: "gasPriceHint req = 36"
    if "cfg_gasPriceMultiplier cfg = 6/5" "currentGasPrice col = 30"
      "decide cfg col fl sig = (Emit req, fl')" for req fl'
    using emit[OF that(3)] that(1,2) by simp
  from emit pass ex1 ex2 show ?thesis
    by blast
qed

theorem decide_request_sizes_witness:
  "decide example_config example_collaborators {} example_aggregated =
     (Emit \<lparr>keyAccount = ''0x1111111111111111111111111111111111111111'', keyMarket = ''m1'',
            keySide = buy, requestedSizeUsd = 250, gasPriceHint = 36,
            originSignalIds = [''0xfeed'']\<rparr>,
      {(''0x1111111111111111111111111111111111111111'', ''m1'', buy)}) \<and>
   requestedSizeUsd \<lparr>keyAccount = ''0x1111111111111111111111111111111111111111'', keyMarket = ''m1'',
            keySide = buy, requestedSizeUsd = 250, gasPriceHint = 36,
            originSignalIds = [''0xfeed'']\<rparr> =
     netSizeUsd example_aggregated * cfg_frontrunSizeMultiplier example_config \<and>
   gasPriceHint \<lparr>keyAccount = ''0x1111111111111111111111111111111111111111'', keyMarket = ''m1'',
            keySide = buy, requestedSizeUsd = 250, gasPriceHint = 36,
            originSignalIds = [''0xfeed'']\<rparr> =
     currentGasPrice example_collaborators * cfg_gasPriceMultiplier example_config"
proof -
  have d: "decide example_config example_collaborators {} example_aggregated =
     (Emit \<lparr>keyAccount = ''0x1111111111111111111111111111111111111111'', keyMarket = ''m1'',
            keySide = buy, requestedSizeUsd = 250, gasPriceHint = 36,
            originSignalIds = [''0xfeed'']\<rparr>,
      {(''0x1111111111111111111111111111111111111111'', ''m1'', buy)})"
    by (simp add: decide_def example_config_def example_collaborators_def example_aggregated_def)
  note t = decide_request_sizes[of example_config example_collaborators "{}" example_aggregated,
      THEN conjunct1, rule_format, OF d]
  from d t show ?thesis
    by (intro conjI) (simp_all only:)
qed

section \<open>Properties of the Signal Merger\<close>






end
